theory Spec2Isabelle
  imports Main "HOL-Library.Char_ord" "HOL-Library.List_Lexorder" "HOL-Library.Product_Lexorder"
    "HOL-Library.Multiset"
begin

section \<open>Strings\<close>

text \<open>
  Python text is modelled as \<open>string\<close> (a list of 8-bit characters): the model covers
  ASCII text. \<open>str.strip()\<close> removes leading and trailing whitespace, which for ASCII
  is the characters 9..13, 28..31 and 32; \<open>str.lower()\<close> maps \<open>A..Z\<close> to \<open>a..z\<close>.
\<close>

definition is_space :: "char \<Rightarrow> bool" where
  "is_space c = (let n = (of_char c :: nat) in (9 \<le> n \<and> n \<le> 13) \<or> (28 \<le> n \<and> n \<le> 32))"

definition strip :: "string \<Rightarrow> string" where
  "strip s = rev (dropWhile is_space (rev (dropWhile is_space s)))"

definition lower_char :: "char \<Rightarrow> char" where
  "lower_char c = (let n = (of_char c :: nat) in if 65 \<le> n \<and> n \<le> 90 then char_of (n + 32) else c)"

definition lower :: "string \<Rightarrow> string" where
  "lower s = map lower_char s"

definition startswith :: "string \<Rightarrow> string \<Rightarrow> bool" where
  "startswith s p = (take (length p) s = p)"

definition digit_char :: "nat \<Rightarrow> char" where
  "digit_char d = char_of (48 + d)"

text \<open>\<open>str(n)\<close> for a non-negative integer: its decimal digits.\<close>

fun str_nat :: "nat \<Rightarrow> string" where
  "str_nat n = (if n < 10 then [digit_char n] else str_nat (n div 10) @ [digit_char (n mod 10)])"

declare str_nat.simps [simp del]

section \<open>The relational store and the upload directory\<close>

text \<open>
  The four tables of \<open>init_db\<close>, each a list of rows in rowid order, the
  AUTOINCREMENT counters of the tables, and the upload directory as a map from file
  name to content. \<open>fetchone()\<close> on a query with no ORDER BY is the first matching row.
\<close>

record user =
  u_id :: nat
  u_name :: string
  u_email :: string
  u_password :: string
  u_role :: string

record assignment =
  a_id :: nat
  a_title :: string
  a_description :: string
  a_deadline :: string

record submission =
  s_id :: nat
  s_student_id :: nat
  s_assignment_id :: nat
  s_file_name :: string
  s_submitted_at :: string
  s_status :: string
  s_faculty_comment :: string
  s_reviewed_at :: string
  s_reviewed_by :: "nat option"

record login_log =
  l_id :: nat
  l_user_id :: nat
  l_login_time :: string

record portal =
  users :: "user list"
  assignments :: "assignment list"
  submissions :: "submission list"
  login_logs :: "login_log list"
  users_seq :: nat
  assignments_seq :: nat
  submissions_seq :: nat
  login_logs_seq :: nat
  uploads :: "string \<rightharpoonup> string"

text \<open>
  The library services the handlers call, taken as parameters: werkzeug's
  \<open>generate_password_hash\<close>, \<open>check_password_hash\<close> and \<open>secure_filename\<close>, and
  the integer that SQLite's numeric affinity gives a text parameter compared with (or
  stored in) an INTEGER column (\<open>None\<close> when the text is no integer, so that it equals
  no id), and the C library's rendering of \<open>%Y\<close> in \<open>strftime\<close>. The clock
  (\<open>now_text()\<close>) and \<open>uuid4().hex\<close> are arguments of the handlers that read them.
\<close>

record services =
  generate_password_hash :: "string \<Rightarrow> string"
  check_password_hash :: "string \<Rightarrow> string \<Rightarrow> bool"
  secure_filename :: "string \<Rightarrow> string"
  sql_integer :: "string \<Rightarrow> nat option"
  format_year :: "nat \<Rightarrow> string"

text \<open>The session cookie of a logged-in browser: \<open>user_id\<close>, \<open>name\<close>, \<open>role\<close>.\<close>

record session =
  user_id :: nat
  name :: string
  role :: string

section \<open>Outcomes of a request\<close>

text \<open>
  The source reports every failure as a flashed message of category \<open>error\<close> and a
  redirect. The error class attached to a failing branch here is the one the
  specification's taxonomy gives that condition; the message and the redirect target
  are the source's.
\<close>

datatype error = ValidationError | ConflictError | NotFoundError | AuthError | AuthorizationError

datatype outcome =
    Fail error string string
  | Success string string
  | Redirect string
  | Render string
  | SendFromDirectory string

text \<open>\<open>login_required(role)\<close>: the decorator around the protected handlers.\<close>

definition login_required ::
  "string option \<Rightarrow> session option \<Rightarrow> portal \<Rightarrow> (session \<Rightarrow> portal \<times> outcome) \<Rightarrow> portal \<times> outcome" where
  "login_required r sess db f =
     (case sess of
        None \<Rightarrow> (db, Redirect ''login'')
      | Some se \<Rightarrow>
          (case r of
             None \<Rightarrow> f se
           | Some rl \<Rightarrow>
               if rl \<noteq> [] \<and> role se \<noteq> rl
               then (db, Fail AuthorizationError ''Access denied for your role.'' ''dashboard'')
               else f se))"

section \<open>Deleting a submission\<close>

text \<open>\<open>os.remove\<close> inside \<open>try ... except FileNotFoundError: pass\<close>.\<close>

definition remove_file :: "string \<Rightarrow> portal \<Rightarrow> portal" where
  "remove_file fname db = db\<lparr>uploads := (uploads db)(fname := None)\<rparr>"

definition delete_row :: "nat \<Rightarrow> portal \<Rightarrow> portal" where
  "delete_row i db = db\<lparr>submissions := filter (\<lambda>r. s_id r \<noteq> i) (submissions db)\<rparr>"

text \<open>The body of \<open>delete_submission(submission_id)\<close> for the student of the session.\<close>

definition delete_body :: "nat \<Rightarrow> nat \<Rightarrow> portal \<Rightarrow> portal \<times> outcome" where
  "delete_body student submission_id db =
     (case find (\<lambda>r. s_id r = submission_id \<and> s_student_id r = student) (submissions db) of
        None \<Rightarrow> (db, Fail NotFoundError ''Submission not found.'' ''student_dashboard'')
      | Some row \<Rightarrow>
          if s_status row \<noteq> ''Pending''
          then (db, Fail AuthorizationError ''You can delete only pending submissions.''
                  ''student_dashboard'')
          else (delete_row submission_id (remove_file (s_file_name row) db),
                Success ''Submission deleted.'' ''student_dashboard''))"

definition delete_submission :: "session option \<Rightarrow> nat \<Rightarrow> portal \<Rightarrow> portal \<times> outcome" where
  "delete_submission sess submission_id db =
     login_required (Some ''student'') sess db (\<lambda>se. delete_body (user_id se) submission_id db)"

section \<open>Date-times\<close>

text \<open>
  \<open>datetime.strptime\<close> compiles the format to a regular expression and matches it at
  the start of the text (\<open>re.match\<close>, backtracking, first alternative first); the
  match must end where the text ends. A piece of the expression is modelled as the list
  of its matches at the start of a text, in the order backtracking tries them, each with
  the number read and the rest of the text.
  \<^item> \<open>%Y\<close> is \<open>\d\d\d\d\<close>; \<open>%m\<close> is \<open>1[0-2]|0[1-9]|[1-9]\<close>;
    \<open>%d\<close> is \<open>3[0-1]|[1-2]\d|0[1-9]|[1-9]| [1-9]\<close>;
  \<^item> \<open>%H\<close> is \<open>2[0-3]|[0-1]\d|\d\<close>; \<open>%M\<close> is \<open>[0-5]\d|\d\<close>;
    \<open>%S\<close> is \<open>6[0-1]|[0-5]\d|\d\<close>;
  \<^item> a blank of the format is \<open>\s+\<close> (greedy); any other character is itself,
    compared ignoring case.
  A naive \<open>datetime\<close> is the tuple (year, month, day, hour, minute, second), ordered
  lexicographically.
\<close>

type_synonym datetime = "nat \<times> nat \<times> nat \<times> nat \<times> nat \<times> nat"

type_synonym piece = "string \<Rightarrow> (nat \<times> string) list"

definition digit_in :: "nat \<Rightarrow> nat \<Rightarrow> char \<Rightarrow> bool" where
  "digit_in lo hi c = (let n = (of_char c :: nat) in 48 + lo \<le> n \<and> n \<le> 48 + hi)"

definition digit_val :: "char \<Rightarrow> nat" where
  "digit_val c = (of_char c :: nat) - 48"

definition one_digit :: "nat \<Rightarrow> nat \<Rightarrow> piece" where
  "one_digit lo hi s =
     (case s of
        a # r \<Rightarrow> if digit_in lo hi a then [(digit_val a, r)] else []
      | _ \<Rightarrow> [])"

definition two_digits :: "nat \<Rightarrow> nat \<Rightarrow> nat \<Rightarrow> nat \<Rightarrow> piece" where
  "two_digits lo1 hi1 lo2 hi2 s =
     (case s of
        a # b # r \<Rightarrow>
          if digit_in lo1 hi1 a \<and> digit_in lo2 hi2 b
          then [(10 * digit_val a + digit_val b, r)] else []
      | _ \<Rightarrow> [])"

definition blank_digit :: piece where
  "blank_digit s =
     (case s of
        a # b # r \<Rightarrow> if a = CHR '' '' \<and> digit_in 1 9 b then [(digit_val b, r)] else []
      | _ \<Rightarrow> [])"

definition rx_Y :: piece where
  "rx_Y s =
     (case s of
        a # b # c # d # r \<Rightarrow>
          if digit_in 0 9 a \<and> digit_in 0 9 b \<and> digit_in 0 9 c \<and> digit_in 0 9 d
          then [(1000 * digit_val a + 100 * digit_val b + 10 * digit_val c + digit_val d, r)]
          else []
      | _ \<Rightarrow> [])"

definition rx_m :: piece where
  "rx_m s = two_digits 1 1 0 2 s @ two_digits 0 0 1 9 s @ one_digit 1 9 s"

definition rx_d :: piece where
  "rx_d s = two_digits 3 3 0 1 s @ two_digits 1 2 0 9 s @ two_digits 0 0 1 9 s
            @ one_digit 1 9 s @ blank_digit s"

definition rx_H :: piece where
  "rx_H s = two_digits 2 2 0 3 s @ two_digits 0 1 0 9 s @ one_digit 0 9 s"

definition rx_M :: piece where
  "rx_M s = two_digits 0 5 0 9 s @ one_digit 0 9 s"

definition rx_S :: piece where
  "rx_S s = two_digits 6 6 0 1 s @ two_digits 0 5 0 9 s @ one_digit 0 9 s"

definition lit :: "char \<Rightarrow> string \<Rightarrow> string list" where
  "lit c s = (case s of a # r \<Rightarrow> if lower_char a = lower_char c then [r] else [] | _ \<Rightarrow> [])"

definition rx_blank :: "string \<Rightarrow> string list" where
  "rx_blank s = map (\<lambda>k. drop k s) (rev [1 ..< Suc (length (takeWhile is_space s))])"

definition is_leap :: "nat \<Rightarrow> bool" where
  "is_leap y = (y mod 4 = 0 \<and> (y mod 100 \<noteq> 0 \<or> y mod 400 = 0))"

definition days_in_month :: "nat \<Rightarrow> nat \<Rightarrow> nat" where
  "days_in_month y m =
     (if m = 2 then (if is_leap y then 29 else 28)
      else if m = 4 \<or> m = 6 \<or> m = 9 \<or> m = 11 then 30 else 31)"

text \<open>The constructor of \<open>datetime\<close> raises ValueError outside these ranges.\<close>

definition make_datetime :: "datetime \<Rightarrow> datetime option" where
  "make_datetime t =
     (case t of (y, m, d, h, mi, se) \<Rightarrow>
        if 1 \<le> y \<and> y \<le> 9999 \<and> 1 \<le> m \<and> m \<le> 12 \<and> 1 \<le> d \<and> d \<le> days_in_month y m
           \<and> h \<le> 23 \<and> mi \<le> 59 \<and> se \<le> 59
        then Some t else None)"

text \<open>The first match decides; \<open>None\<close> is ValueError.\<close>

definition first_match :: "(datetime \<times> string) list \<Rightarrow> datetime option" where
  "first_match ms =
     (case ms of
        [] \<Rightarrow> None
      | (t, r) # _ \<Rightarrow> if r \<noteq> [] then None else make_datetime t)"

text \<open>\<open>%Y-%m-%d %H:%M:%S\<close>\<close>

definition rx_seconds :: "string \<Rightarrow> (datetime \<times> string) list" where
  "rx_seconds s =
     [((y, m, d, h, mi, se), r11).
        (y, r1) \<leftarrow> rx_Y s, r2 \<leftarrow> lit CHR ''-'' r1,
        (m, r3) \<leftarrow> rx_m r2, r4 \<leftarrow> lit CHR ''-'' r3,
        (d, r5) \<leftarrow> rx_d r4, r6 \<leftarrow> rx_blank r5,
        (h, r7) \<leftarrow> rx_H r6, r8 \<leftarrow> lit CHR '':'' r7,
        (mi, r9) \<leftarrow> rx_M r8, r10 \<leftarrow> lit CHR '':'' r9,
        (se, r11) \<leftarrow> rx_S r10]"

text \<open>\<open>%Y-%m-%d %H:%M\<close>\<close>

definition rx_minutes :: "string \<Rightarrow> (datetime \<times> string) list" where
  "rx_minutes s =
     [((y, m, d, h, mi, 0), r9).
        (y, r1) \<leftarrow> rx_Y s, r2 \<leftarrow> lit CHR ''-'' r1,
        (m, r3) \<leftarrow> rx_m r2, r4 \<leftarrow> lit CHR ''-'' r3,
        (d, r5) \<leftarrow> rx_d r4, r6 \<leftarrow> rx_blank r5,
        (h, r7) \<leftarrow> rx_H r6, r8 \<leftarrow> lit CHR '':'' r7,
        (mi, r9) \<leftarrow> rx_M r8]"

text \<open>\<open>%Y-%m-%dT%H:%M\<close>, the format of the deadline field of the assignment form.\<close>

definition rx_local :: "string \<Rightarrow> (datetime \<times> string) list" where
  "rx_local s =
     [((y, m, d, h, mi, 0), r9).
        (y, r1) \<leftarrow> rx_Y s, r2 \<leftarrow> lit CHR ''-'' r1,
        (m, r3) \<leftarrow> rx_m r2, r4 \<leftarrow> lit CHR ''-'' r3,
        (d, r5) \<leftarrow> rx_d r4, r6 \<leftarrow> lit CHR ''T'' r5,
        (h, r7) \<leftarrow> rx_H r6, r8 \<leftarrow> lit CHR '':'' r7,
        (mi, r9) \<leftarrow> rx_M r8]"

definition strptime_seconds :: "string \<Rightarrow> datetime option" where
  "strptime_seconds s = first_match (rx_seconds s)"

definition strptime_minutes :: "string \<Rightarrow> datetime option" where
  "strptime_minutes s = first_match (rx_minutes s)"

definition strptime_local :: "string \<Rightarrow> datetime option" where
  "strptime_local s = first_match (rx_local s)"

text \<open>\<open>parse_dt\<close>: the first format that parses, else \<open>None\<close>.\<close>

definition parse_dt :: "string \<Rightarrow> datetime option" where
  "parse_dt v =
     (case strptime_seconds v of
        Some t \<Rightarrow> Some t
      | None \<Rightarrow> (case strptime_minutes v of Some t \<Rightarrow> Some t | None \<Rightarrow> None))"

text \<open>\<open>bool(dead and sub and sub > dead)\<close>: a \<open>datetime\<close> is always true.\<close>

definition late :: "string \<Rightarrow> string \<Rightarrow> bool" where
  "late dl sa =
     (case parse_dt dl of
        None \<Rightarrow> False
      | Some dead \<Rightarrow> (case parse_dt sa of None \<Rightarrow> False | Some sub \<Rightarrow> sub > dead))"

text \<open>\<open>strftime("%Y-%m-%d %H:%M")\<close>: two digits for each field but the year.\<close>

definition two :: "nat \<Rightarrow> string" where
  "two n = [digit_char (n div 10), digit_char (n mod 10)]"

definition strftime_minutes :: "services \<Rightarrow> datetime \<Rightarrow> string" where
  "strftime_minutes sv t =
     (case t of (y, m, d, h, mi, se) \<Rightarrow>
        format_year sv y @ ''-'' @ two m @ ''-'' @ two d @ '' '' @ two h @ '':'' @ two mi)"

section \<open>Request forms\<close>

text \<open>\<open>request.form.get(key, "")\<close> and the uploaded file of \<open>request.files\<close>.\<close>

type_synonym form = "string \<rightharpoonup> string"

definition form_get :: "form \<Rightarrow> string \<Rightarrow> string" where
  "form_get f k = (case f k of None \<Rightarrow> [] | Some v \<Rightarrow> v)"

record file_storage =
  filename :: string
  stream :: string

section \<open>Submitting a PDF\<close>

definition ALLOWED_EXTENSIONS :: "string set" where
  "ALLOWED_EXTENSIONS = {''pdf''}"

text \<open>\<open>filename.rsplit(".", 1)[1]\<close> is the text after the last dot.\<close>

definition extension :: "string \<Rightarrow> string" where
  "extension fname = rev (takeWhile (\<lambda>c. c \<noteq> CHR ''.'') (rev fname))"

definition allowed_file :: "string \<Rightarrow> bool" where
  "allowed_file fname = (CHR ''.'' \<in> set fname \<and> lower (extension fname) \<in> ALLOWED_EXTENSIONS)"

definition is_pdf_content :: "file_storage \<Rightarrow> bool" where
  "is_pdf_content f = (take 4 (stream f) = ''%PDF'')"

text \<open>A query by id with a text parameter: the row whose id is the parameter's integer.\<close>

definition assignment_by_id :: "services \<Rightarrow> string \<Rightarrow> portal \<Rightarrow> assignment option" where
  "assignment_by_id sv i db =
     (case sql_integer sv i of
        None \<Rightarrow> None
      | Some k \<Rightarrow> find (\<lambda>a. a_id a = k) (assignments db))"

definition submission_by_id :: "services \<Rightarrow> string \<Rightarrow> portal \<Rightarrow> submission option" where
  "submission_by_id sv i db =
     (case sql_integer sv i of
        None \<Rightarrow> None
      | Some k \<Rightarrow> find (\<lambda>r. s_id r = k) (submissions db))"

definition is_pending_for :: "nat \<Rightarrow> nat \<Rightarrow> submission \<Rightarrow> bool" where
  "is_pending_for student k r =
     (s_student_id r = student \<and> s_assignment_id r = k \<and> s_status r = ''Pending'')"

text \<open>Lines 468 to 480: the Pending row of the pair, if any, goes with its file.\<close>

definition remove_old :: "nat \<Rightarrow> nat \<Rightarrow> portal \<Rightarrow> portal" where
  "remove_old student k db =
     (case find (is_pending_for student k) (submissions db) of
        None \<Rightarrow> db
      | Some old \<Rightarrow> delete_row (s_id old) (remove_file (s_file_name old) db))"

definition save_file :: "string \<Rightarrow> string \<Rightarrow> portal \<Rightarrow> portal" where
  "save_file fname bytes db = db\<lparr>uploads := (uploads db)(fname \<mapsto> bytes)\<rparr>"

text \<open>
  The INSERT of a submission: the columns not named take their defaults, and the id is
  one more than the largest the table ever had.
\<close>

definition insert_submission :: "nat \<Rightarrow> nat \<Rightarrow> string \<Rightarrow> string \<Rightarrow> portal \<Rightarrow> portal" where
  "insert_submission student k fname now db =
     db\<lparr>submissions := submissions db @
           [\<lparr>s_id = Suc (submissions_seq db), s_student_id = student, s_assignment_id = k,
             s_file_name = fname, s_submitted_at = now, s_status = ''Pending'',
             s_faculty_comment = [], s_reviewed_at = [], s_reviewed_by = None\<rparr>],
        submissions_seq := Suc (submissions_seq db)\<rparr>"

definition final_name :: "services \<Rightarrow> nat \<Rightarrow> string \<Rightarrow> string \<Rightarrow> string \<Rightarrow> string" where
  "final_name sv student assignment_id token fname =
     str_nat student @ ''_'' @ assignment_id @ ''_'' @ token @ ''_'' @ secure_filename sv fname"

text \<open>Lines 482 to 494: the file is saved and the new row inserted.\<close>

definition store_new ::
  "services \<Rightarrow> string \<Rightarrow> string \<Rightarrow> nat \<Rightarrow> string \<Rightarrow> nat \<Rightarrow> file_storage \<Rightarrow> portal \<Rightarrow> portal" where
  "store_new sv now token student assignment_id k f db =
     (let fname = final_name sv student assignment_id token (filename f)
      in insert_submission student k fname now (save_file fname (stream f) db))"

text \<open>
  The POST branch of \<open>student_dashboard\<close>, from the form fields as the handler holds
  them (\<open>assignment_id\<close> already stripped, \<open>file\<close> the upload or \<open>None\<close>).
\<close>

definition submit ::
  "services \<Rightarrow> string \<Rightarrow> string \<Rightarrow> nat \<Rightarrow> string \<Rightarrow> file_storage option \<Rightarrow> portal
   \<Rightarrow> portal \<times> outcome" where
  "submit sv now token student assignment_id file db =
     (if assignment_id = []
      then (db, Fail ValidationError ''Please select an assignment.'' ''student_dashboard'')
      else case file of
        None \<Rightarrow> (db, Fail ValidationError ''Please choose a PDF file.'' ''student_dashboard'')
      | Some f \<Rightarrow>
          if filename f = []
          then (db, Fail ValidationError ''Please choose a PDF file.'' ''student_dashboard'')
          else if \<not> allowed_file (filename f)
          then (db, Fail ValidationError ''Only PDF files are allowed.'' ''student_dashboard'')
          else if \<not> is_pdf_content f
          then (db, Fail ValidationError ''Invalid file content. Please upload a valid PDF.''
                  ''student_dashboard'')
          else case assignment_by_id sv assignment_id db of
            None \<Rightarrow> (db, Fail NotFoundError ''Assignment not found.'' ''student_dashboard'')
          | Some a \<Rightarrow>
              (store_new sv now token student assignment_id (a_id a) f
                 (remove_old student (a_id a) db),
               Success ''Assignment submitted successfully.'' ''student_dashboard''))"

definition student_dashboard_post ::
  "services \<Rightarrow> string \<Rightarrow> string \<Rightarrow> session option \<Rightarrow> form \<Rightarrow> file_storage option \<Rightarrow> portal
   \<Rightarrow> portal \<times> outcome" where
  "student_dashboard_post sv now token sess f file db =
     login_required (Some ''student'') sess db
       (\<lambda>se. submit sv now token (user_id se) (strip (form_get f ''assignment_id'')) file db)"

section \<open>The student's view\<close>

record submission_view =
  v_id :: nat
  v_file_name :: string
  v_submitted_at :: string
  v_status :: string
  v_faculty_comment :: string
  v_reviewed_at :: string
  v_title :: string
  v_deadline :: string
  v_late :: bool


definition view_row :: "submission \<Rightarrow> assignment \<Rightarrow> submission_view" where
  "view_row s a =
     \<lparr>v_id = s_id s, v_file_name = s_file_name s, v_submitted_at = s_submitted_at s,
      v_status = s_status s, v_faculty_comment = s_faculty_comment s,
      v_reviewed_at = s_reviewed_at s, v_title = a_title a, v_deadline = a_deadline a,
      v_late = late (a_deadline a) (s_submitted_at s)\<rparr>"

text \<open>
  The join of the GET branch, newest first (\<open>ORDER BY s.submitted_at DESC\<close>), each row
  with its \<open>late\<close> flag.
\<close>

definition submissions_view :: "nat \<Rightarrow> portal \<Rightarrow> submission_view list" where
  "submissions_view student db =
     rev (sort_key v_submitted_at
       (rev [view_row s a. s \<leftarrow> submissions db, a \<leftarrow> assignments db,
               a_id a = s_assignment_id s, s_student_id s = student]))"

section \<open>The faculty's forms\<close>

text \<open>
  The \<open>review\<close> branch of \<open>faculty_dashboard\<close>, from the fields as the handler holds
  them: the UPDATE writes every row with the id.
\<close>

definition apply_review :: "nat \<Rightarrow> string \<Rightarrow> string \<Rightarrow> string \<Rightarrow> nat \<Rightarrow> submission \<Rightarrow> submission" where
  "apply_review k action comment now faculty r =
     (if s_id r = k
      then r\<lparr>s_status := action, s_faculty_comment := comment, s_reviewed_at := now,
             s_reviewed_by := Some faculty\<rparr>
      else r)"

definition review ::
  "services \<Rightarrow> string \<Rightarrow> nat \<Rightarrow> string \<Rightarrow> string \<Rightarrow> string \<Rightarrow> portal \<Rightarrow> portal \<times> outcome" where
  "review sv now faculty submission_id action comment db =
     (if action \<notin> {''Approved'', ''Rejected''}
      then (db, Fail ValidationError ''Invalid action.'' ''faculty_dashboard'')
      else case submission_by_id sv submission_id db of
        None \<Rightarrow> (db, Fail NotFoundError ''Submission not found.'' ''faculty_dashboard'')
      | Some row \<Rightarrow>
          (db\<lparr>submissions :=
                map (apply_review (s_id row) action comment now faculty) (submissions db)\<rparr>,
           Success (''Submission '' @ lower action @ '' successfully.'') ''faculty_dashboard''))"

text \<open>
  The \<open>assignment\<close> branch: the INSERT raises IntegrityError when the title is taken
  (the column is UNIQUE).
\<close>

definition insert_assignment :: "string \<Rightarrow> string \<Rightarrow> string \<Rightarrow> portal \<Rightarrow> portal" where
  "insert_assignment title description deadline db =
     db\<lparr>assignments := assignments db @
           [\<lparr>a_id = Suc (assignments_seq db), a_title = title, a_description = description,
             a_deadline = deadline\<rparr>],
        assignments_seq := Suc (assignments_seq db)\<rparr>"

definition create_assignment ::
  "services \<Rightarrow> string \<Rightarrow> string \<Rightarrow> string \<Rightarrow> portal \<Rightarrow> portal \<times> outcome" where
  "create_assignment sv title description deadline db =
     (if title = [] \<or> description = [] \<or> deadline = []
      then (db, Fail ValidationError ''All assignment fields are required.'' ''faculty_dashboard'')
      else case strptime_local deadline of
        None \<Rightarrow> (db, Fail ValidationError ''Deadline format is invalid.'' ''faculty_dashboard'')
      | Some t \<Rightarrow>
          if title \<in> a_title ` set (assignments db)
          then (db, Fail ConflictError ''Assignment title already exists.'' ''faculty_dashboard'')
          else (insert_assignment title description (strftime_minutes sv t) db,
                Success ''Assignment created successfully.'' ''faculty_dashboard''))"

definition faculty_dashboard_post ::
  "services \<Rightarrow> string \<Rightarrow> session option \<Rightarrow> form \<Rightarrow> portal \<Rightarrow> portal \<times> outcome" where
  "faculty_dashboard_post sv now sess f db =
     login_required (Some ''faculty'') sess db
       (\<lambda>se. let form_type = strip (form_get f ''form_type'') in
          if form_type = ''review''
          then review sv now (user_id se) (strip (form_get f ''submission_id''))
                 (strip (form_get f ''action'')) (strip (form_get f ''comment'')) db
          else if form_type = ''assignment''
          then create_assignment sv (strip (form_get f ''title''))
                 (strip (form_get f ''description'')) (strip (form_get f ''deadline'')) db
          else (db, Render ''faculty_dashboard''))"

section \<open>Accounts\<close>

definition hash_password :: "services \<Rightarrow> string \<Rightarrow> string" where
  "hash_password sv password = generate_password_hash sv password"

text \<open>The pair is (valid, should upgrade).\<close>

definition verify_password :: "services \<Rightarrow> string \<Rightarrow> string \<Rightarrow> bool \<times> bool" where
  "verify_password sv raw_password stored_password =
     (if startswith stored_password ''pbkdf2:'' \<or> startswith stored_password ''scrypt:''
      then (check_password_hash sv stored_password raw_password, False)
      else (raw_password = stored_password, True))"

definition set_password :: "nat \<Rightarrow> string \<Rightarrow> portal \<Rightarrow> portal" where
  "set_password i h db =
     db\<lparr>users := map (\<lambda>u. if u_id u = i then u\<lparr>u_password := h\<rparr> else u) (users db)\<rparr>"

definition insert_login_log :: "nat \<Rightarrow> string \<Rightarrow> portal \<Rightarrow> portal" where
  "insert_login_log i now db =
     db\<lparr>login_logs := login_logs db @
           [\<lparr>l_id = Suc (login_logs_seq db), l_user_id = i, l_login_time = now\<rparr>],
        login_logs_seq := Suc (login_logs_seq db)\<rparr>"

text \<open>
  The POST branch of \<open>login\<close> after the form is read; the third component is the
  session the handler opens (\<open>None\<close>: the session is left as it was).
\<close>

definition authenticate ::
  "services \<Rightarrow> string \<Rightarrow> string \<Rightarrow> string \<Rightarrow> string \<Rightarrow> portal
   \<Rightarrow> portal \<times> outcome \<times> session option" where
  "authenticate sv now email password claimed db =
     (case find (\<lambda>u. u_email u = email \<and> u_role u = claimed) (users db) of
        None \<Rightarrow> (db, Fail AuthError ''Invalid credentials or wrong role selected.'' ''login'', None)
      | Some u \<Rightarrow>
          (case verify_password sv password (u_password u) of
             (valid, should_upgrade) \<Rightarrow>
               if \<not> valid
               then (db, Fail AuthError ''Invalid credentials or wrong role selected.'' ''login'',
                     None)
               else
                 (insert_login_log (u_id u) now
                    (if should_upgrade
                     then set_password (u_id u) (hash_password sv password) db else db),
                  Success (''Welcome, '' @ u_name u @ ''!'') ''dashboard'',
                  Some \<lparr>user_id = u_id u, name = u_name u, role = u_role u\<rparr>)))"

definition login :: "services \<Rightarrow> string \<Rightarrow> form \<Rightarrow> portal \<Rightarrow> portal \<times> outcome \<times> session option" where
  "login sv now f db =
     authenticate sv now (lower (strip (form_get f ''email''))) (strip (form_get f ''password''))
       (strip (form_get f ''role'')) db"

definition insert_user :: "string \<Rightarrow> string \<Rightarrow> string \<Rightarrow> string \<Rightarrow> portal \<Rightarrow> portal" where
  "insert_user nm em pw rl db =
     db\<lparr>users := users db @
           [\<lparr>u_id = Suc (users_seq db), u_name = nm, u_email = em, u_password = pw,
             u_role = rl\<rparr>],
        users_seq := Suc (users_seq db)\<rparr>"

definition register :: "services \<Rightarrow> form \<Rightarrow> portal \<Rightarrow> portal \<times> outcome" where
  "register sv f db =
     (let nm = strip (form_get f ''name'');
          em = lower (strip (form_get f ''email''));
          pw = strip (form_get f ''password'')
      in if nm = [] \<or> em = [] \<or> pw = []
         then (db, Fail ValidationError ''All fields are required.'' ''register'')
         else if em \<in> u_email ` set (users db)
         then (db, Fail ConflictError ''Email already exists.'' ''register'')
         else (insert_user nm em (hash_password sv pw) ''student'' db,
               Success ''Student account created. Login now.'' ''login''))"

text \<open>
  The answer of \<open>login\<close> to a failed lookup (lines 372 and 373) and to a failed
  password check (lines 376 and 377): one and the same.
\<close>

definition generic_failure :: outcome where
  "generic_failure = Fail AuthError ''Invalid credentials or wrong role selected.'' ''login''"

section \<open>Downloading a file\<close>

definition download_file :: "session option \<Rightarrow> string \<Rightarrow> portal \<Rightarrow> portal \<times> outcome" where
  "download_file sess fname db =
     login_required None sess db
       (\<lambda>se. case find (\<lambda>r. s_file_name r = fname) (submissions db) of
          None \<Rightarrow> (db, Fail NotFoundError ''File not found.'' ''dashboard'')
        | Some sub \<Rightarrow>
            if role se = ''student'' \<and> s_student_id sub \<noteq> user_id se
            then (db, Fail AuthorizationError ''You are not allowed to access this file.''
                    ''student_dashboard'')
            else (db, SendFromDirectory fname))"

section \<open>The portal as a transition system\<close>

text \<open>\<open>init_db\<close> on a fresh database file: empty tables, then \<open>seed_data\<close>.\<close>

definition empty_portal :: portal where
  "empty_portal =
     \<lparr>users = [], assignments = [], submissions = [], login_logs = [], users_seq = 0,
      assignments_seq = 0, submissions_seq = 0, login_logs_seq = 0, uploads = Map.empty\<rparr>"

definition seed_data :: "services \<Rightarrow> portal \<Rightarrow> portal" where
  "seed_data sv db =
     insert_assignment ''Operating Systems - Report''
       ''Write report on process scheduling algorithms.'' ''2026-03-14 23:59''
     (insert_assignment ''Database Systems - Mini Project''
       ''Design schema and SQL queries for library management.'' ''2026-03-10 23:59''
     (insert_assignment ''Data Structures - Week 1''
       ''Implement stack and queue operations with test cases.'' ''2026-03-05 23:59''
     (insert_user ''Rahul Student'' ''rahul@student.edu'' (hash_password sv ''student123'') ''student''
     (insert_user ''Meena Student'' ''meena@student.edu'' (hash_password sv ''student123'') ''student''
     (insert_user ''Arun Student'' ''arun@student.edu'' (hash_password sv ''student123'') ''student''
     (insert_user ''Dr. Priya Faculty'' ''faculty@college.edu'' (hash_password sv ''faculty123'')
        ''faculty'' db))))))"

definition init_db :: "services \<Rightarrow> portal" where
  "init_db sv = seed_data sv empty_portal"

text \<open>
  A request that can change the store, with the values the handler reads from the
  clock and from \<open>uuid4\<close>. Any session may come with a request: the sessions the
  application really opens are among them.
\<close>

datatype request =
    Register form
  | Login string form
  | Submit string string "session option" form "file_storage option"
  | Delete "session option" nat
  | Faculty string "session option" form

fun handle :: "services \<Rightarrow> request \<Rightarrow> portal \<Rightarrow> portal" where
  "handle sv (Register f) db = fst (register sv f db)"
| "handle sv (Login now f) db = fst (login sv now f db)"
| "handle sv (Submit now token sess f file) db = fst (student_dashboard_post sv now token sess f file db)"
| "handle sv (Delete sess i) db = fst (delete_submission sess i db)"
| "handle sv (Faculty now sess f) db = fst (faculty_dashboard_post sv now sess f db)"

inductive reachable :: "services \<Rightarrow> portal \<Rightarrow> bool" for sv :: services where
  start: "reachable sv (init_db sv)"
| step: "reachable sv db \<Longrightarrow> reachable sv (handle sv req db)"

text \<open>The rows of a student for an assignment, and the Pending ones among them.\<close>

definition rows_for :: "nat \<Rightarrow> nat \<Rightarrow> portal \<Rightarrow> submission list" where
  "rows_for student k db =
     filter (\<lambda>r. s_student_id r = student \<and> s_assignment_id r = k) (submissions db)"

definition pending_for :: "nat \<Rightarrow> nat \<Rightarrow> portal \<Rightarrow> submission list" where
  "pending_for student k db = filter (is_pending_for student k) (submissions db)"

text \<open>Ids are never reused: every id is at most the counter, and no two rows share one.\<close>

definition ids_fresh :: "portal \<Rightarrow> bool" where
  "ids_fresh db =
     (distinct (map s_id (submissions db))
      \<and> list_all (\<lambda>r. s_id r \<le> submissions_seq db) (submissions db))"

text \<open>
  The invariant of the submissions table: ids are fresh, and no two Pending rows have
  the same student and assignment.
\<close>

definition pending_key :: "submission \<Rightarrow> nat \<times> nat" where
  "pending_key r = (s_student_id r, s_assignment_id r)"

definition pending_unique :: "portal \<Rightarrow> bool" where
  "pending_unique db =
     distinct (map pending_key (filter (\<lambda>r. s_status r = ''Pending'') (submissions db)))"

definition portal_inv :: "portal \<Rightarrow> bool" where
  "portal_inv db = (ids_fresh db \<and> pending_unique db)"

section \<open>Concrete data\<close>

text \<open>
  A small store and stand-ins for the library services, on which the theorems below
  are instantiated: a student (user 2) with a Pending and an Approved submission, and a
  Pending submission of another student (user 3).
\<close>

definition demo_student :: session where
  "demo_student = \<lparr>user_id = 2, name = ''Arun Student'', role = ''student''\<rparr>"

definition demo_row :: "nat \<Rightarrow> nat \<Rightarrow> nat \<Rightarrow> string \<Rightarrow> string \<Rightarrow> submission" where
  "demo_row i st k fname status =
     \<lparr>s_id = i, s_student_id = st, s_assignment_id = k, s_file_name = fname,
      s_submitted_at = ''2026-03-01 10:00:00'', s_status = status, s_faculty_comment = [],
      s_reviewed_at = [], s_reviewed_by = None\<rparr>"

definition demo_services :: services where
  "demo_services =
     \<lparr>generate_password_hash = (\<lambda>p. ''scrypt:'' @ p),
      check_password_hash = (\<lambda>h p. h = ''scrypt:'' @ p),
      secure_filename = (\<lambda>n. n),
      sql_integer = (\<lambda>s. if s \<noteq> [] \<and> list_all (digit_in 0 9) s
                          then Some (foldl (\<lambda>n c. 10 * n + digit_val c) 0 s) else None),
      format_year = str_nat\<rparr>"

definition demo_db :: portal where
  "demo_db = empty_portal
     \<lparr>assignments :=
        [\<lparr>a_id = 1, a_title = ''Data Structures - Week 1'',
          a_description = ''Implement stack and queue operations with test cases.'',
          a_deadline = ''2026-03-05 23:59''\<rparr>,
         \<lparr>a_id = 2, a_title = ''Database Systems - Mini Project'',
          a_description = ''Design schema and SQL queries for library management.'',
          a_deadline = ''2026-03-10 23:59''\<rparr>],
      assignments_seq := 2,
      submissions :=
        [demo_row 1 2 1 ''2_1_aa_hw.pdf'' ''Pending'', demo_row 2 2 2 ''2_2_bb_hw.pdf'' ''Approved'',
         demo_row 3 3 1 ''3_1_cc_hw.pdf'' ''Pending''],
      submissions_seq := 3,
      uploads := [''2_1_aa_hw.pdf'' \<mapsto> ''%PDF-1'', ''2_2_bb_hw.pdf'' \<mapsto> ''%PDF-2'',
                  ''3_1_cc_hw.pdf'' \<mapsto> ''%PDF-3'']\<rparr>"

definition demo_faculty :: session where
  "demo_faculty = \<lparr>user_id = 1, name = ''Dr. Priya Faculty'', role = ''faculty''\<rparr>"

text \<open>A review form as a browser may post it, the comment with blanks around it.\<close>

definition demo_review_form :: form where
  "demo_review_form =
     [''form_type'' \<mapsto> ''review'', ''submission_id'' \<mapsto> ''1'', ''action'' \<mapsto> ''Approved'',
      ''comment'' \<mapsto> '' Well done '']"

text \<open>A store whose only submission came one second after the deadline.\<close>

definition demo_late_db :: portal where
  "demo_late_db = demo_db
     \<lparr>submissions :=
        [(demo_row 4 2 1 ''2_1_dd_hw.pdf'' ''Pending'')\<lparr>s_submitted_at := ''2026-03-05 23:59:01''\<rparr>],
      submissions_seq := 4\<rparr>"


text \<open>
  Two accounts, the student's password still stored as plain text, and a login form
  with the e-mail in mixed case between blanks.
\<close>

definition demo_users_db :: portal where
  "demo_users_db = demo_db
     \<lparr>users :=
        [\<lparr>u_id = 1, u_name = ''Dr. Priya Faculty'', u_email = ''faculty@college.edu'',
          u_password = ''scrypt:faculty123'', u_role = ''faculty''\<rparr>,
         \<lparr>u_id = 2, u_name = ''Arun Student'', u_email = ''arun@student.edu'',
          u_password = ''student123'', u_role = ''student''\<rparr>],
      users_seq := 2\<rparr>"

definition demo_login_form :: "string \<Rightarrow> string \<Rightarrow> form" where
  "demo_login_form pw rl =
     [''email'' \<mapsto> '' Arun@Student.edu '', ''password'' \<mapsto> pw, ''role'' \<mapsto> rl]"

text \<open>
  Three requests on the fresh database: the student submits a PDF for assignment 1,
  the faculty member approves it, and the student submits again.
\<close>

definition demo_pdf :: file_storage where
  "demo_pdf = \<lparr>filename = ''hw.pdf'', stream = ''%PDF-1.4 homework''\<rparr>"

definition demo_submit_form :: form where
  "demo_submit_form = [''assignment_id'' \<mapsto> '' 1 '']"

definition demo_step1 :: portal where
  "demo_step1 =
     handle demo_services
       (Submit ''2026-03-02 10:00:00'' ''a1'' (Some demo_student) demo_submit_form (Some demo_pdf))
       (init_db demo_services)"

definition demo_step2 :: portal where
  "demo_step2 =
     handle demo_services (Faculty ''2026-03-03 09:00:00'' (Some demo_faculty) demo_review_form)
       demo_step1"

definition demo_step3 :: portal where
  "demo_step3 =
     handle demo_services
       (Submit ''2026-03-04 10:00:00'' ''b2'' (Some demo_student) demo_submit_form (Some demo_pdf))
       demo_step2"

section \<open>Lemmas on queries\<close>

text \<open>A query that at most one row can answer finds that row.\<close>

lemma find_only:
  "x \<in> set xs \<Longrightarrow> P x \<Longrightarrow> \<forall>y\<in>set xs. P y \<longrightarrow> y = x \<Longrightarrow> find P xs = Some x"
proof (induction xs)
  case Nil
  then show ?case by simp
next
  case (Cons a xs)
  show ?case
  proof (cases "P a")
    case True
    with Cons.prems(3) have "a = x" by auto
    with True show ?thesis by simp
  next
    case False
    with Cons.prems(1,2) have "x \<in> set xs" by auto
    moreover have "\<forall>y\<in>set xs. P y \<longrightarrow> y = x" using Cons.prems(3) by auto
    ultimately have "find P xs = Some x" using Cons.IH Cons.prems(2) by blast
    with False show ?thesis by simp
  qed
qed

lemma find_by_key:
  assumes "distinct (map f xs)" and "x \<in> set xs" and "P x"
    and "\<forall>y\<in>set xs. P y \<longrightarrow> f y = f x"
  shows "find P xs = Some x"
proof -
  have inj: "inj_on f (set xs)" using assms(1) by (simp add: distinct_map)
  have "\<forall>y\<in>set xs. P y \<longrightarrow> y = x"
    using inj assms(2,4) by (meson inj_onD)
  then show ?thesis using assms(2,3) by (rule_tac find_only)
qed

lemma filter_neq_key:
  assumes "distinct (map f xs)" and "x \<in> set xs"
  shows "set (filter (\<lambda>r. f r \<noteq> f x) xs) = set xs - {x}"
proof -
  have inj: "inj_on f (set xs)" using assms(1) by (simp add: distinct_map)
  have "\<And>y. y \<in> set xs \<Longrightarrow> (f y \<noteq> f x) = (y \<noteq> x)"
    using inj assms(2) by (meson inj_onD)
  then show ?thesis by auto
qed

lemma find_Some_holds: "find P xs = Some x \<Longrightarrow> P x \<and> x \<in> set xs"
  by (induction xs) (auto split: if_splits)

text \<open>The text after the last dot of a file name.\<close>

lemma extension_split:
  assumes "CHR ''.'' \<in> set fname"
  shows "\<exists>base. fname = base @ ''.'' @ extension fname \<and> CHR ''.'' \<notin> set (extension fname)"
proof -
  let ?P = "\<lambda>c. c \<noteq> CHR ''.''"
  let ?d = "dropWhile ?P (rev fname)"
  have "?d \<noteq> []" using assms by (simp add: dropWhile_eq_Nil_conv)
  moreover have "?d \<noteq> [] \<Longrightarrow> \<not> ?P (hd ?d)" by (rule hd_dropWhile)
  ultimately obtain rest where d: "?d = CHR ''.'' # rest" by (cases ?d) auto
  have "rev fname = takeWhile ?P (rev fname) @ ?d" by simp
  then have "rev fname = rev (extension fname) @ CHR ''.'' # rest"
    using d by (simp add: extension_def)
  then have "rev (rev fname) = rev (rev (extension fname) @ CHR ''.'' # rest)" by (rule arg_cong)
  then have "fname = rev rest @ ''.'' @ extension fname" by simp
  moreover have "CHR ''.'' \<notin> set (extension fname)"
    by (auto simp: extension_def dest: set_takeWhileD)
  ultimately show ?thesis by blast
qed

lemma extension_append:
  assumes "CHR ''.'' \<notin> set ext"
  shows "extension (base @ ''.'' @ ext) = ext"
proof -
  have "takeWhile (\<lambda>c. c \<noteq> CHR ''.'') (rev ext @ CHR ''.'' # rev base) = rev ext"
    using assms by (simp add: takeWhile_append)
  then show ?thesis by (simp add: extension_def)
qed

lemma allowed_file_iff:
  "allowed_file fname
     = (\<exists>base ext. fname = base @ ''.'' @ ext \<and> CHR ''.'' \<notin> set ext \<and> lower ext = ''pdf'')"
proof
  assume "allowed_file fname"
  then have dot: "CHR ''.'' \<in> set fname" and low: "lower (extension fname) = ''pdf''"
    by (simp_all add: allowed_file_def ALLOWED_EXTENSIONS_def)
  from extension_split [OF dot] low
  show "\<exists>base ext. fname = base @ ''.'' @ ext \<and> CHR ''.'' \<notin> set ext \<and> lower ext = ''pdf''"
    by blast
next
  assume "\<exists>base ext. fname = base @ ''.'' @ ext \<and> CHR ''.'' \<notin> set ext \<and> lower ext = ''pdf''"
  then obtain base ext where f: "fname = base @ ''.'' @ ext" and nd: "CHR ''.'' \<notin> set ext"
    and low: "lower ext = ''pdf''" by blast
  have "extension fname = ext" unfolding f using nd by (rule extension_append)
  moreover have "CHR ''.'' \<in> set fname" unfolding f by simp
  ultimately show "allowed_file fname"
    using low by (simp add: allowed_file_def ALLOWED_EXTENSIONS_def)
qed

text \<open>Reviews: the UPDATE keeps every id and writes only the row with the id.\<close>

lemma find_key_present:
  assumes "k \<in> f ` set xs"
  shows "\<exists>x. find (\<lambda>r. f r = k) xs = Some x \<and> f x = k"
proof -
  have "find (\<lambda>r. f r = k) xs \<noteq> None" using assms by (auto simp: find_None_iff)
  then obtain x where "find (\<lambda>r. f r = k) xs = Some x" by blast
  then show ?thesis by (auto dest: find_Some_holds)
qed

lemma apply_review_id: "s_id (apply_review k a c n f r) = s_id r"
  by (simp add: apply_review_def)

lemma apply_review_twice:
  "apply_review k a2 c2 n2 f2 (apply_review k a c n f r) = apply_review k a2 c2 n2 f2 r"
  by (simp add: apply_review_def)

lemma review_success:
  assumes "action \<in> {''Approved'', ''Rejected''}" and "sql_integer sv sid = Some k"
    and "k \<in> s_id ` set (submissions db)"
  shows "review sv now faculty sid action comment db
     = (db\<lparr>submissions := map (apply_review k action comment now faculty) (submissions db)\<rparr>,
        Success (''Submission '' @ lower action @ '' successfully.'') ''faculty_dashboard'')"
proof -
  from find_key_present [OF assms(3)] obtain x
    where "find (\<lambda>r. s_id r = k) (submissions db) = Some x" and "s_id x = k" by blast
  then have "submission_by_id sv sid db = Some x" using assms(2)
    by (simp add: submission_by_id_def)
  then show ?thesis using assms(1) \<open>s_id x = k\<close> by (simp add: review_def)
qed

lemma apply_review_only_row:
  assumes "distinct (map s_id xs)" and "row \<in> set xs"
  shows "map (apply_review (s_id row) a c n f) xs
     = map (\<lambda>r. if r = row
                 then row\<lparr>s_status := a, s_faculty_comment := c, s_reviewed_at := n,
                          s_reviewed_by := Some f\<rparr>
                 else r) xs"
proof (rule map_cong [OF refl])
  fix r assume "r \<in> set xs"
  moreover have "inj_on s_id (set xs)" using assms(1) by (simp add: distinct_map)
  ultimately have "(s_id r = s_id row) = (r = row)" using assms(2) by (meson inj_onD)
  then show "apply_review (s_id row) a c n f r
     = (if r = row
        then row\<lparr>s_status := a, s_faculty_comment := c, s_reviewed_at := n,
                 s_reviewed_by := Some f\<rparr>
        else r)"
    by (auto simp: apply_review_def)
qed

text \<open>The concrete form and ids, evaluated.\<close>

lemma demo_form_fields:
  "strip (form_get demo_review_form ''form_type'') = ''review''"
  "strip (form_get demo_review_form ''submission_id'') = ''1''"
  "strip (form_get demo_review_form ''action'') = ''Approved''"
  "strip (form_get demo_review_form ''comment'') = ''Well done''"
  by code_simp+


lemma demo_sql_integer:
  "sql_integer demo_services ''1'' = Some 1"
  "sql_integer demo_services ''2'' = Some 2"
  "sql_integer demo_services ''7'' = Some 7"
  by (simp_all add: demo_services_def digit_in_def digit_val_def)



text \<open>Parsing, evaluated on the texts of the examples; the rows of the view.\<close>

lemmas dt_defs = parse_dt_def strptime_seconds_def strptime_minutes_def first_match_def
  rx_seconds_def rx_minutes_def rx_Y_def rx_m_def rx_d_def rx_H_def rx_M_def rx_S_def
  rx_blank_def lit_def one_digit_def two_digits_def blank_digit_def digit_in_def digit_val_def
  make_datetime_def days_in_month_def is_leap_def is_space_def lower_char_def

lemma parse_deadline: "parse_dt ''2026-03-05 23:59'' = Some (2026, 3, 5, 23, 59, 0)"
  by (simp add: dt_defs)

lemma parse_on_time: "parse_dt ''2026-03-05 23:59:00'' = Some (2026, 3, 5, 23, 59, 0)"
  by (simp add: dt_defs)

lemma parse_one_second_later: "parse_dt ''2026-03-05 23:59:01'' = Some (2026, 3, 5, 23, 59, 1)"
  by (simp add: dt_defs)

lemma view_rows:
  "v \<in> set (submissions_view student db) \<Longrightarrow> \<exists>s a. v = view_row s a"
  by (auto simp: submissions_view_def)

lemma late_iff:
  "late dl sa
     = (\<exists>dead sub. parse_dt dl = Some dead \<and> parse_dt sa = Some sub \<and> dead < sub)"
  by (auto simp: late_def split: option.splits)

lemma demo_late_view:
  "submissions_view 2 demo_late_db
     = [\<lparr>v_id = 4, v_file_name = ''2_1_dd_hw.pdf'', v_submitted_at = ''2026-03-05 23:59:01'',
         v_status = ''Pending'', v_faculty_comment = [], v_reviewed_at = [],
         v_title = ''Data Structures - Week 1'', v_deadline = ''2026-03-05 23:59'',
         v_late = True\<rparr>]"
  by (simp add: submissions_view_def view_row_def demo_late_db_def demo_db_def demo_row_def
      late_def parse_deadline parse_one_second_later)







text \<open>Logging in: the lookup by e-mail and role.\<close>

lemma demo_login_fields:
  "lower (strip (form_get (demo_login_form pw rl) ''email'')) = ''arun@student.edu''"
  "form_get (demo_login_form pw rl) ''password'' = pw"
  "form_get (demo_login_form pw rl) ''role'' = rl"
proof -
  have "lower (strip '' Arun@Student.edu '') = ''arun@student.edu''" by code_simp
  then show "lower (strip (form_get (demo_login_form pw rl) ''email'')) = ''arun@student.edu''"
    by (simp add: demo_login_form_def form_get_def)
  show "form_get (demo_login_form pw rl) ''password'' = pw"
    and "form_get (demo_login_form pw rl) ''role'' = rl"
    by (simp_all add: demo_login_form_def form_get_def)
qed

lemma demo_strips:
  "strip ''student123'' = ''student123''" "strip ''nope'' = ''nope''"
  "strip ''student'' = ''student''" "strip ''faculty'' = ''faculty''"
  by code_simp+

lemma authenticate_no_user:
  assumes "\<forall>u\<in>set (users db). u_email u = email \<longrightarrow> u_role u \<noteq> claimed"
  shows "authenticate sv now email password claimed db = (db, generic_failure, None)"
proof -
  have "find (\<lambda>u. u_email u = email \<and> u_role u = claimed) (users db) = None"
    using assms by (auto simp: find_None_iff)
  then show ?thesis by (simp add: authenticate_def generic_failure_def)
qed

lemma authenticate_found:
  assumes "distinct (map u_email (users db))" and "u \<in> set (users db)"
    and "u_email u = email" and "u_role u = claimed"
  shows "find (\<lambda>u. u_email u = email \<and> u_role u = claimed) (users db) = Some u"
  using assms by (intro find_by_key [where f = u_email]) auto

text \<open>The invariant is kept by the deletion, the review and the two steps of a submit.\<close>

lemma at_most_one_with_key:
  "distinct (map f xs) \<Longrightarrow> length (filter (\<lambda>x. f x = k) xs) \<le> 1"
proof (induction xs)
  case Nil
  then show ?case by simp
next
  case (Cons a xs)
  show ?case
  proof (cases "f a = k")
    case True
    then have "k \<notin> f ` set xs" using Cons.prems by auto
    then have "filter (\<lambda>x. f x = k) xs = []" by (auto simp: filter_empty_conv)
    then show ?thesis using True by simp
  next
    case False
    then show ?thesis using Cons by simp
  qed
qed

lemma pending_for_as_key:
  "pending_for student k db
     = filter (\<lambda>r. pending_key r = (student, k))
         (filter (\<lambda>r. s_status r = ''Pending'') (submissions db))"
  by (auto simp: pending_for_def is_pending_for_def pending_key_def intro: filter_cong)

lemma pending_unique_length:
  "pending_unique db \<Longrightarrow> length (pending_for student k db) \<le> 1"
  unfolding pending_for_as_key pending_unique_def by (rule at_most_one_with_key)

lemma distinct_map_filter_sub:
  "distinct (map f (filter P xs)) \<Longrightarrow> distinct (map f (filter P (filter Q xs)))"
  by (induction xs) auto

lemma inv_delete_row:
  assumes "portal_inv db"
  shows "portal_inv (delete_row i (remove_file fname db))"
proof -
  have "ids_fresh (delete_row i (remove_file fname db))"
    using assms
    by (auto simp: portal_inv_def ids_fresh_def delete_row_def remove_file_def
        distinct_map_filter list_all_iff)
  moreover have "pending_unique (delete_row i (remove_file fname db))"
  proof -
    have "distinct (map pending_key (filter (\<lambda>r. s_status r = ''Pending'') (submissions db)))"
      using assms by (simp add: portal_inv_def pending_unique_def)
    then have "distinct (map pending_key (filter (\<lambda>r. s_status r = ''Pending'')
        (filter (\<lambda>r. s_id r \<noteq> i) (submissions db))))"
      by (rule distinct_map_filter_sub)
    then show ?thesis by (simp add: pending_unique_def delete_row_def remove_file_def)
  qed
  ultimately show ?thesis by (simp add: portal_inv_def)
qed

lemma pending_after_review:
  assumes "a \<noteq> ''Pending''"
  shows "filter (\<lambda>r. s_status r = ''Pending'') (map (apply_review k a c n f) xs)
     = filter (\<lambda>r. s_status r = ''Pending'') (filter (\<lambda>r. s_id r \<noteq> k) xs)"
  using assms by (induction xs) (auto simp: apply_review_def)

lemma inv_review:
  assumes "portal_inv db" and "a \<in> {''Approved'', ''Rejected''}"
  shows "portal_inv (db\<lparr>submissions := map (apply_review k a c n f) (submissions db)\<rparr>)"
proof -
  have np: "a \<noteq> ''Pending''" using assms(2) by auto
  have comp: "s_id \<circ> apply_review k a c n f = s_id"
    by (rule ext) (simp add: apply_review_id)
  have 1: "ids_fresh (db\<lparr>submissions := map (apply_review k a c n f) (submissions db)\<rparr>)"
    using assms(1) by (simp add: portal_inv_def ids_fresh_def list_all_iff apply_review_id comp)
  have "distinct (map pending_key (filter (\<lambda>r. s_status r = ''Pending'') (submissions db)))"
    using assms(1) by (simp add: portal_inv_def pending_unique_def)
  then have "distinct (map pending_key (filter (\<lambda>r. s_status r = ''Pending'')
      (filter (\<lambda>r. s_id r \<noteq> k) (submissions db))))"
    by (rule distinct_map_filter_sub)
  then have 2: "pending_unique (db\<lparr>submissions := map (apply_review k a c n f) (submissions db)\<rparr>)"
    by (simp add: pending_unique_def pending_after_review [OF np])
  show ?thesis using 1 2 by (simp add: portal_inv_def)
qed

lemma remove_old_inv: "portal_inv db \<Longrightarrow> portal_inv (remove_old student k db)"
  by (simp add: remove_old_def inv_delete_row split: option.splits)

lemma remove_old_seq: "submissions_seq (remove_old student k db) = submissions_seq db"
  by (simp add: remove_old_def delete_row_def remove_file_def split: option.splits)

lemma remove_old_no_pending:
  assumes "pending_unique db"
  shows "pending_for student k (remove_old student k db) = []"
proof (cases "find (is_pending_for student k) (submissions db)")
  case None
  then have "pending_for student k db = []"
    by (auto simp: pending_for_def find_None_iff filter_empty_conv)
  then show ?thesis using None by (simp add: remove_old_def pending_for_def)
next
  case (Some old)
  then have old: "is_pending_for student k old" "old \<in> set (submissions db)"
    by (auto dest: find_Some_holds)
  have le: "length (pending_for student k db) \<le> 1"
    using assms by (rule pending_unique_length)
  have "old \<in> set (pending_for student k db)" using old by (simp add: pending_for_def)
  then have only: "pending_for student k db = [old]"
    using le by (cases "pending_for student k db") auto
  have "\<forall>r\<in>set (submissions db). is_pending_for student k r \<longrightarrow> r = old"
  proof (intro ballI impI)
    fix r assume "r \<in> set (submissions db)" and "is_pending_for student k r"
    then have "r \<in> set (pending_for student k db)" by (simp add: pending_for_def)
    then show "r = old" using only by simp
  qed
  then have "filter (is_pending_for student k) (filter (\<lambda>r. s_id r \<noteq> s_id old) (submissions db)) = []"
    by (auto simp: filter_empty_conv)
  then show ?thesis
    using Some by (simp add: remove_old_def pending_for_def delete_row_def remove_file_def)
qed

lemma inv_insert:
  assumes "portal_inv db" and "pending_for student k db = []"
  shows "portal_inv (insert_submission student k fname now (save_file fname bytes db))"
proof -
  have fresh: "ids_fresh db" and uniq: "pending_unique db"
    using assms(1) by (simp_all add: portal_inv_def)
  have "Suc (submissions_seq db) \<notin> s_id ` set (submissions db)"
    using fresh by (auto simp: ids_fresh_def list_all_iff)
  then have 1: "ids_fresh (insert_submission student k fname now (save_file fname bytes db))"
    using fresh
    by (auto simp: ids_fresh_def insert_submission_def save_file_def list_all_iff)
  have "(student, k) \<notin> pending_key ` set (filter (\<lambda>r. s_status r = ''Pending'') (submissions db))"
  proof
    assume "(student, k) \<in> pending_key ` set (filter (\<lambda>r. s_status r = ''Pending'') (submissions db))"
    then obtain r where "r \<in> set (submissions db)" and "s_status r = ''Pending''"
      and "pending_key r = (student, k)" by auto
    then have "r \<in> set (pending_for student k db)"
      by (simp add: pending_for_def is_pending_for_def pending_key_def)
    then show False using assms(2) by simp
  qed
  then have 2: "pending_unique (insert_submission student k fname now (save_file fname bytes db))"
    using uniq
    by (simp add: pending_unique_def insert_submission_def save_file_def pending_key_def)
  show ?thesis using 1 2 by (simp add: portal_inv_def)
qed

lemma inv_submit_steps:
  assumes "portal_inv db"
  shows "portal_inv (store_new sv now token student aid k f (remove_old student k db))"
proof -
  have "portal_inv (remove_old student k db)" using assms by (rule remove_old_inv)
  moreover have "pending_for student k (remove_old student k db) = []"
    using assms by (simp add: portal_inv_def remove_old_no_pending)
  ultimately show ?thesis by (simp add: store_new_def Let_def inv_insert)
qed

text \<open>Every handler keeps the invariant, so every reachable store has it.\<close>

lemma inv_init: "portal_inv (init_db sv)"
  by (simp add: init_db_def seed_data_def insert_assignment_def insert_user_def
      empty_portal_def portal_inv_def ids_fresh_def pending_unique_def)

lemma inv_other_tables:
  "portal_inv (insert_user nm em pw rl db) = portal_inv db"
  "portal_inv (insert_login_log i now db) = portal_inv db"
  "portal_inv (set_password i h db) = portal_inv db"
  "portal_inv (insert_assignment title description deadline db) = portal_inv db"
  by (simp_all add: portal_inv_def ids_fresh_def pending_unique_def insert_user_def
      insert_login_log_def set_password_def insert_assignment_def)

lemma inv_register: "portal_inv db \<Longrightarrow> portal_inv (fst (register sv f db))"
  by (simp add: register_def Let_def inv_other_tables)

lemma inv_login: "portal_inv db \<Longrightarrow> portal_inv (fst (login sv now f db))"
  by (simp add: login_def authenticate_def inv_other_tables split: option.splits prod.splits)

lemma inv_submit: "portal_inv db \<Longrightarrow> portal_inv (fst (submit sv now token student aid file db))"
  by (simp add: submit_def inv_submit_steps split: option.splits)

lemma inv_student_post:
  "portal_inv db \<Longrightarrow> portal_inv (fst (student_dashboard_post sv now token sess f file db))"
  by (simp add: student_dashboard_post_def login_required_def inv_submit split: option.splits)

lemma inv_delete: "portal_inv db \<Longrightarrow> portal_inv (fst (delete_submission sess i db))"
  by (simp add: delete_submission_def login_required_def delete_body_def inv_delete_row
      split: option.splits)

lemma inv_review_op:
  "portal_inv db \<Longrightarrow> portal_inv (fst (review sv now faculty sid action comment db))"
  by (auto simp: review_def inv_review split: option.splits)

lemma inv_create:
  "portal_inv db \<Longrightarrow> portal_inv (fst (create_assignment sv title description deadline db))"
  by (simp add: create_assignment_def inv_other_tables split: option.splits)

lemma inv_faculty_post:
  "portal_inv db \<Longrightarrow> portal_inv (fst (faculty_dashboard_post sv now sess f db))"
  by (simp add: faculty_dashboard_post_def login_required_def Let_def inv_review_op inv_create
      split: option.splits)

lemma inv_handle: "portal_inv db \<Longrightarrow> portal_inv (handle sv req db)"
  by (cases req)
    (simp_all add: inv_register inv_login inv_student_post inv_delete inv_faculty_post)

lemma reachable_inv: "reachable sv db \<Longrightarrow> portal_inv db"
  by (induction rule: reachable.induct) (simp_all add: inv_init inv_handle)

lemma length_filter_delete_key:
  "distinct (map f xs) \<Longrightarrow> x \<in> set xs \<Longrightarrow> P x
     \<Longrightarrow> Suc (length (filter P (filter (\<lambda>r. f r \<noteq> f x) xs))) = length (filter P xs)"
proof (induction xs)
  case Nil
  then show ?case by simp
next
  case (Cons a xs)
  show ?case
  proof (cases "a = x")
    case True
    then have "f x \<notin> f ` set xs" using Cons.prems(1) by auto
    then have "\<forall>r\<in>set xs. f r \<noteq> f x" by (metis imageI)
    then have "filter (\<lambda>r. f r \<noteq> f x) xs = xs" by (simp add: filter_id_conv)
    then show ?thesis using True Cons.prems(3) by simp
  next
    case False
    then have mem: "x \<in> set xs" using Cons.prems(2) by simp
    then have "f a \<noteq> f x" using Cons.prems(1) by auto
    moreover have "Suc (length (filter P (filter (\<lambda>r. f r \<noteq> f x) xs))) = length (filter P xs)"
      using Cons.IH Cons.prems(1,3) mem by simp
    ultimately show ?thesis by simp
  qed
qed

lemma remove_old_cases:
  assumes "portal_inv db"
  shows "(pending_for student k db = [] \<and> remove_old student k db = db)
    \<or> (\<exists>old. pending_for student k db = [old] \<and> old \<in> set (submissions db)
          \<and> remove_old student k db
              = delete_row (s_id old) (remove_file (s_file_name old) db))"
proof (cases "find (is_pending_for student k) (submissions db)")
  case None
  then have "pending_for student k db = []"
    by (auto simp: pending_for_def find_None_iff filter_empty_conv)
  then show ?thesis using None by (simp add: remove_old_def)
next
  case (Some old)
  then have old: "is_pending_for student k old" "old \<in> set (submissions db)"
    by (auto dest: find_Some_holds)
  have "pending_unique db" using assms by (simp add: portal_inv_def)
  then have le: "length (pending_for student k db) \<le> 1" by (rule pending_unique_length)
  have "old \<in> set (pending_for student k db)" using old by (simp add: pending_for_def)
  then have "pending_for student k db = [old]"
    using le by (cases "pending_for student k db") auto
  then show ?thesis using Some old by (simp add: remove_old_def)
qed

lemma store_new_submissions:
  "submissions (store_new sv now token student aid k f db)
     = submissions db @
         [\<lparr>s_id = Suc (submissions_seq db), s_student_id = student, s_assignment_id = k,
           s_file_name = final_name sv student aid token (filename f), s_submitted_at = now,
           s_status = ''Pending'', s_faculty_comment = [], s_reviewed_at = [],
           s_reviewed_by = None\<rparr>]"
  by (simp add: store_new_def Let_def insert_submission_def save_file_def)

lemma submit_success:
  assumes "aid \<noteq> []" and "filename f \<noteq> []" and "allowed_file (filename f)"
    and "is_pdf_content f" and "assignment_by_id sv aid db = Some a"
  shows "submit sv now token student aid (Some f) db
     = (store_new sv now token student aid (a_id a) f (remove_old student (a_id a) db),
        Success ''Assignment submitted successfully.'' ''student_dashboard'')"
  using assms by (simp add: submit_def)

text \<open>What the two steps of a submit do to the rows of the student for the assignment.\<close>

lemma remove_old_none:
  "pending_for student k db = [] \<Longrightarrow> remove_old student k db = db"
proof -
  assume "pending_for student k db = []"
  then have "find (is_pending_for student k) (submissions db) = None"
    by (auto simp: pending_for_def find_None_iff filter_empty_conv)
  then show ?thesis by (simp add: remove_old_def)
qed

lemma remove_old_replaces:
  assumes "portal_inv db" and "old \<in> set (pending_for student k db)"
  shows "old \<notin> set (submissions (remove_old student k db))"
    and "uploads (remove_old student k db) (s_file_name old) = None"
    and "Suc (length (rows_for student k (remove_old student k db)))
           = length (rows_for student k db)"
    and "s_id old \<le> submissions_seq db"
proof -
  have dist: "distinct (map s_id (submissions db))"
    and bound: "list_all (\<lambda>r. s_id r \<le> submissions_seq db) (submissions db)"
    using assms(1) by (simp_all add: portal_inv_def ids_fresh_def)
  from remove_old_cases [OF assms(1), of student k] assms(2)
  have mem: "old \<in> set (submissions db)"
    and rm: "remove_old student k db
        = delete_row (s_id old) (remove_file (s_file_name old) db)"
    by auto
  have key: "s_student_id old = student \<and> s_assignment_id old = k"
    using assms(2) by (simp add: pending_for_def is_pending_for_def)
  have "set (submissions (remove_old student k db)) = set (submissions db) - {old}"
    unfolding rm using filter_neq_key [OF dist mem]
    by (simp add: delete_row_def remove_file_def)
  then show "old \<notin> set (submissions (remove_old student k db))" by simp
  show "uploads (remove_old student k db) (s_file_name old) = None"
    unfolding rm by (simp add: delete_row_def remove_file_def)
  show "Suc (length (rows_for student k (remove_old student k db)))
           = length (rows_for student k db)"
    unfolding rm using length_filter_delete_key [OF dist mem, of
        "\<lambda>r. s_student_id r = student \<and> s_assignment_id r = k"] key
    by (simp add: rows_for_def delete_row_def remove_file_def)
  show "s_id old \<le> submissions_seq db"
    using bound mem by (simp add: list_all_iff)
qed

lemma remove_old_keeps:
  assumes "portal_inv db" and "r \<in> set (submissions db)" and "s_status r \<noteq> ''Pending''"
  shows "r \<in> set (submissions (remove_old student k db))"
proof -
  have dist: "distinct (map s_id (submissions db))"
    using assms(1) by (simp add: portal_inv_def ids_fresh_def)
  from remove_old_cases [OF assms(1), of student k] show ?thesis
  proof (elim disjE exE conjE)
    assume "remove_old student k db = db"
    then show ?thesis using assms(2) by simp
  next
    fix old
    assume only: "pending_for student k db = [old]" and mem: "old \<in> set (submissions db)"
      and rm: "remove_old student k db
          = delete_row (s_id old) (remove_file (s_file_name old) db)"
    have "old \<in> set (pending_for student k db)" using only by simp
    then have "s_status old = ''Pending''" by (simp add: pending_for_def is_pending_for_def)
    then have "r \<noteq> old" using assms(3) by auto
    moreover have "set (submissions (remove_old student k db)) = set (submissions db) - {old}"
      unfolding rm using filter_neq_key [OF dist mem]
      by (simp add: delete_row_def remove_file_def)
    ultimately show ?thesis using assms(2) by simp
  qed
qed

lemma store_new_rows:
  "length (rows_for student k (store_new sv now token student aid k f db))
     = Suc (length (rows_for student k db))"
  by (simp add: rows_for_def store_new_submissions)

lemma store_new_pending:
  "pending_for student k db = []
     \<Longrightarrow> length (pending_for student k (store_new sv now token student aid k f db)) = 1"
  by (simp add: pending_for_def store_new_submissions is_pending_for_def)

text \<open>The three requests, evaluated.\<close>

lemma demo_submit_field: "strip (form_get demo_submit_form ''assignment_id'') = ''1''"
  by code_simp

lemma demo_pdf_valid:
  "filename demo_pdf \<noteq> []" "allowed_file (filename demo_pdf)" "is_pdf_content demo_pdf"
  by (simp_all add: demo_pdf_def allowed_file_def extension_def lower_def lower_char_def
      ALLOWED_EXTENSIONS_def is_pdf_content_def)

lemma init_db_tables:
  "map a_id (assignments (init_db sv)) = [1, 2, 3]"
  "submissions (init_db sv) = []"
  "submissions_seq (init_db sv) = 0"
  by (simp_all add: init_db_def seed_data_def insert_assignment_def insert_user_def
      empty_portal_def)

lemma store_new_other:
  "assignments (store_new sv now token student aid k f db) = assignments db"
  "submissions_seq (store_new sv now token student aid k f db) = Suc (submissions_seq db)"
  by (simp_all add: store_new_def Let_def insert_submission_def save_file_def)

lemma remove_old_assignments: "assignments (remove_old student k db) = assignments db"
  by (simp add: remove_old_def delete_row_def remove_file_def split: option.splits)

lemma assignment_one:
  assumes "map a_id (assignments db) = [1, 2, 3]"
  shows "\<exists>a. assignment_by_id demo_services ''1'' db = Some a \<and> a_id a = 1"
proof -
  have "1 \<in> a_id ` set (assignments db)"
  proof -
    have "1 \<in> set (map a_id (assignments db))" unfolding assms by simp
    then show ?thesis by simp
  qed
  from find_key_present [OF this] show ?thesis
    by (simp add: assignment_by_id_def demo_sql_integer)
qed

lemma demo_student_submit:
  assumes "map a_id (assignments db) = [1, 2, 3]"
  shows "handle demo_services (Submit now token (Some demo_student) demo_submit_form
            (Some demo_pdf)) db
     = store_new demo_services now token 2 ''1'' 1 demo_pdf (remove_old 2 1 db)"
proof -
  from assignment_one [OF assms] obtain a
    where a: "assignment_by_id demo_services ''1'' db = Some a" and k: "a_id a = 1" by blast
  have "submit demo_services now token 2 ''1'' (Some demo_pdf) db
      = (store_new demo_services now token 2 ''1'' (a_id a) demo_pdf (remove_old 2 (a_id a) db),
         Success ''Assignment submitted successfully.'' ''student_dashboard'')"
    by (rule submit_success [OF _ demo_pdf_valid a]) simp
  then show ?thesis
    by (simp add: student_dashboard_post_def login_required_def demo_student_def
        demo_submit_field k)
qed

lemma demo_step1_tables:
  "map a_id (assignments demo_step1) = [1, 2, 3]"
  "submissions demo_step1
     = [\<lparr>s_id = 1, s_student_id = 2, s_assignment_id = 1,
         s_file_name = final_name demo_services 2 ''1'' ''a1'' ''hw.pdf'',
         s_submitted_at = ''2026-03-02 10:00:00'', s_status = ''Pending'',
         s_faculty_comment = [], s_reviewed_at = [], s_reviewed_by = None\<rparr>]"
  "submissions_seq demo_step1 = 1"
proof -
  have eq: "demo_step1 = store_new demo_services ''2026-03-02 10:00:00'' ''a1'' 2 ''1'' 1 demo_pdf
      (remove_old 2 1 (init_db demo_services))"
    unfolding demo_step1_def by (rule demo_student_submit) (rule init_db_tables)
  have rm: "remove_old 2 1 (init_db demo_services) = init_db demo_services"
    by (rule remove_old_none) (simp add: pending_for_def init_db_tables)
  show "map a_id (assignments demo_step1) = [1, 2, 3]"
    unfolding eq by (simp add: store_new_other remove_old_assignments init_db_tables)
  show "submissions demo_step1
     = [\<lparr>s_id = 1, s_student_id = 2, s_assignment_id = 1,
         s_file_name = final_name demo_services 2 ''1'' ''a1'' ''hw.pdf'',
         s_submitted_at = ''2026-03-02 10:00:00'', s_status = ''Pending'',
         s_faculty_comment = [], s_reviewed_at = [], s_reviewed_by = None\<rparr>]"
    unfolding eq rm by (simp add: store_new_submissions init_db_tables demo_pdf_def)
  show "submissions_seq demo_step1 = 1"
    unfolding eq rm by (simp add: store_new_other init_db_tables)
qed

lemma demo_step2_tables:
  "map a_id (assignments demo_step2) = [1, 2, 3]"
  "submissions demo_step2
     = [\<lparr>s_id = 1, s_student_id = 2, s_assignment_id = 1,
         s_file_name = final_name demo_services 2 ''1'' ''a1'' ''hw.pdf'',
         s_submitted_at = ''2026-03-02 10:00:00'', s_status = ''Approved'',
         s_faculty_comment = ''Well done'', s_reviewed_at = ''2026-03-03 09:00:00'',
         s_reviewed_by = Some 1\<rparr>]"
  "submissions_seq demo_step2 = 1"
proof -
  have post: "faculty_dashboard_post demo_services ''2026-03-03 09:00:00''
        (Some demo_faculty) demo_review_form demo_step1
      = review demo_services ''2026-03-03 09:00:00'' 1 ''1'' ''Approved'' ''Well done'' demo_step1"
    by (simp add: faculty_dashboard_post_def login_required_def demo_faculty_def
        demo_form_fields)
  have k: "1 \<in> s_id ` set (submissions demo_step1)"
    by (simp add: demo_step1_tables)
  have run: "review demo_services ''2026-03-03 09:00:00'' 1 ''1'' ''Approved'' ''Well done''
        demo_step1
      = (demo_step1\<lparr>submissions :=
           map (apply_review 1 ''Approved'' ''Well done'' ''2026-03-03 09:00:00'' 1)
             (submissions demo_step1)\<rparr>,
         Success (''Submission '' @ lower ''Approved'' @ '' successfully.'') ''faculty_dashboard'')"
    by (rule review_success [OF _ demo_sql_integer(1) k]) simp
  have eq: "demo_step2 = demo_step1\<lparr>submissions :=
           map (apply_review 1 ''Approved'' ''Well done'' ''2026-03-03 09:00:00'' 1)
             (submissions demo_step1)\<rparr>"
    unfolding demo_step2_def by (simp only: handle.simps post run fst_conv)
  show "map a_id (assignments demo_step2) = [1, 2, 3]"
    unfolding eq by (simp add: demo_step1_tables)
  show "submissions demo_step2
     = [\<lparr>s_id = 1, s_student_id = 2, s_assignment_id = 1,
         s_file_name = final_name demo_services 2 ''1'' ''a1'' ''hw.pdf'',
         s_submitted_at = ''2026-03-02 10:00:00'', s_status = ''Approved'',
         s_faculty_comment = ''Well done'', s_reviewed_at = ''2026-03-03 09:00:00'',
         s_reviewed_by = Some 1\<rparr>]"
    unfolding eq by (simp add: demo_step1_tables apply_review_def)
  show "submissions_seq demo_step2 = 1"
    unfolding eq by (simp add: demo_step1_tables)
qed

lemma demo_step3_tables:
  "map a_id (assignments demo_step3) = [1, 2, 3]"
  "submissions demo_step3
     = [\<lparr>s_id = 1, s_student_id = 2, s_assignment_id = 1,
         s_file_name = final_name demo_services 2 ''1'' ''a1'' ''hw.pdf'',
         s_submitted_at = ''2026-03-02 10:00:00'', s_status = ''Approved'',
         s_faculty_comment = ''Well done'', s_reviewed_at = ''2026-03-03 09:00:00'',
         s_reviewed_by = Some 1\<rparr>,
        \<lparr>s_id = 2, s_student_id = 2, s_assignment_id = 1,
         s_file_name = final_name demo_services 2 ''1'' ''b2'' ''hw.pdf'',
         s_submitted_at = ''2026-03-04 10:00:00'', s_status = ''Pending'',
         s_faculty_comment = [], s_reviewed_at = [], s_reviewed_by = None\<rparr>]"
proof -
  have eq: "demo_step3 = store_new demo_services ''2026-03-04 10:00:00'' ''b2'' 2 ''1'' 1 demo_pdf
      (remove_old 2 1 demo_step2)"
    unfolding demo_step3_def by (rule demo_student_submit) (rule demo_step2_tables)
  have rm: "remove_old 2 1 demo_step2 = demo_step2"
    by (rule remove_old_none)
      (simp add: pending_for_def demo_step2_tables is_pending_for_def)
  show "map a_id (assignments demo_step3) = [1, 2, 3]"
    unfolding eq by (simp add: store_new_other remove_old_assignments demo_step2_tables)
  show "submissions demo_step3
     = [\<lparr>s_id = 1, s_student_id = 2, s_assignment_id = 1,
         s_file_name = final_name demo_services 2 ''1'' ''a1'' ''hw.pdf'',
         s_submitted_at = ''2026-03-02 10:00:00'', s_status = ''Approved'',
         s_faculty_comment = ''Well done'', s_reviewed_at = ''2026-03-03 09:00:00'',
         s_reviewed_by = Some 1\<rparr>,
        \<lparr>s_id = 2, s_student_id = 2, s_assignment_id = 1,
         s_file_name = final_name demo_services 2 ''1'' ''b2'' ''hw.pdf'',
         s_submitted_at = ''2026-03-04 10:00:00'', s_status = ''Pending'',
         s_faculty_comment = [], s_reviewed_at = [], s_reviewed_by = None\<rparr>]"
    unfolding eq rm by (simp add: store_new_submissions demo_step2_tables demo_pdf_def)
qed

lemma demo_reachable: "reachable demo_services demo_step2" "reachable demo_services demo_step3"
proof -
  have "reachable demo_services demo_step1"
    unfolding demo_step1_def by (intro reachable.step reachable.start)
  then show 2: "reachable demo_services demo_step2"
    unfolding demo_step2_def by (rule reachable.step)
  then show "reachable demo_services demo_step3"
    unfolding demo_step3_def by (rule reachable.step)
qed

section \<open>Deleting a submission: the outcomes\<close>



section \<open>Downloading a file: the outcomes\<close>

text \<open>
  Claim C5. For a logged-in requester, \<open>download_file\<close> answers ``File not found.''
  (NotFoundError) when no submission row records the file name. When a row records it
  (and every row recording it has the same owner), a requester of role \<open>student\<close> who
  is not that owner is refused (AuthorizationError), the owning student is handed to
  \<open>send_from_directory\<close>, and so is a requester of role \<open>faculty\<close>, whatever the
  file name recorded.
\<close>

theorem download_file_outcomes:
  "((\<forall>r\<in>set (submissions db). s_file_name r \<noteq> fname) \<longrightarrow>
      download_file (Some se) fname db = (db, Fail NotFoundError ''File not found.'' ''dashboard''))
   \<and> (\<forall>sub\<in>set (submissions db).
        s_file_name sub = fname
        \<and> (\<forall>r\<in>set (submissions db). s_file_name r = fname \<longrightarrow> s_student_id r = s_student_id sub)
        \<longrightarrow>
          (role se = ''student'' \<and> user_id se \<noteq> s_student_id sub \<longrightarrow>
             download_file (Some se) fname db
               = (db, Fail AuthorizationError ''You are not allowed to access this file.''
                    ''student_dashboard''))
        \<and> (role se = ''student'' \<and> user_id se = s_student_id sub \<longrightarrow>
             download_file (Some se) fname db = (db, SendFromDirectory fname))
        \<and> (role se = ''faculty'' \<longrightarrow>
             download_file (Some se) fname db = (db, SendFromDirectory fname)))"
proof (intro conjI impI ballI)
  assume "\<forall>r\<in>set (submissions db). s_file_name r \<noteq> fname"
  then have "find (\<lambda>r. s_file_name r = fname) (submissions db) = None"
    by (simp add: find_None_iff)
  then show "download_file (Some se) fname db
      = (db, Fail NotFoundError ''File not found.'' ''dashboard'')"
    by (simp add: download_file_def login_required_def)
next
  fix sub
  assume sub: "sub \<in> set (submissions db)"
    and own: "s_file_name sub = fname
        \<and> (\<forall>r\<in>set (submissions db). s_file_name r = fname \<longrightarrow> s_student_id r = s_student_id sub)"
  from sub own have "find (\<lambda>r. s_file_name r = fname) (submissions db) \<noteq> None"
    by (auto simp: find_None_iff)
  then obtain r where r: "find (\<lambda>r. s_file_name r = fname) (submissions db) = Some r"
    by blast
  then have "r \<in> set (submissions db)" and "s_file_name r = fname"
    by (auto dest: find_Some_holds)
  with own have owner: "s_student_id r = s_student_id sub" by blast
  {
    assume "role se = ''student'' \<and> user_id se \<noteq> s_student_id sub"
    with r owner show "download_file (Some se) fname db
               = (db, Fail AuthorizationError ''You are not allowed to access this file.''
                    ''student_dashboard'')"
      by (simp add: download_file_def login_required_def)
  }
  {
    assume "role se = ''student'' \<and> user_id se = s_student_id sub"
    with r owner show "download_file (Some se) fname db = (db, SendFromDirectory fname)"
      by (simp add: download_file_def login_required_def)
  }
  {
    assume "role se = ''faculty''"
    with r show "download_file (Some se) fname db = (db, SendFromDirectory fname)"
      by (simp add: download_file_def login_required_def)
  }
qed

text \<open>
  On the concrete store: an unknown name, another student's file, the student's own
  file, and the faculty member reading a student's file.
\<close>

theorem download_file_outcomes_witness:
  "download_file (Some demo_student) ''9_9_zz_none.pdf'' demo_db
     = (demo_db, Fail NotFoundError ''File not found.'' ''dashboard'')
   \<and> download_file (Some demo_student) ''3_1_cc_hw.pdf'' demo_db
     = (demo_db, Fail AuthorizationError ''You are not allowed to access this file.''
          ''student_dashboard'')
   \<and> download_file (Some demo_student) ''2_2_bb_hw.pdf'' demo_db
     = (demo_db, SendFromDirectory ''2_2_bb_hw.pdf'')
   \<and> download_file (Some demo_faculty) ''3_1_cc_hw.pdf'' demo_db
     = (demo_db, SendFromDirectory ''3_1_cc_hw.pdf'')"
proof -
  let ?r2 = "demo_row 2 2 2 ''2_2_bb_hw.pdf'' ''Approved''"
  let ?r3 = "demo_row 3 3 1 ''3_1_cc_hw.pdf'' ''Pending''"
  have m2: "?r2 \<in> set (submissions demo_db)" and m3: "?r3 \<in> set (submissions demo_db)"
    by (simp_all add: demo_db_def)
  have none: "\<forall>r\<in>set (submissions demo_db). s_file_name r \<noteq> ''9_9_zz_none.pdf''"
    by (simp add: demo_db_def demo_row_def)
  have o2: "s_file_name ?r2 = ''2_2_bb_hw.pdf''
        \<and> (\<forall>r\<in>set (submissions demo_db). s_file_name r = ''2_2_bb_hw.pdf''
              \<longrightarrow> s_student_id r = s_student_id ?r2)"
    by (simp add: demo_db_def demo_row_def)
  have o3: "s_file_name ?r3 = ''3_1_cc_hw.pdf''
        \<and> (\<forall>r\<in>set (submissions demo_db). s_file_name r = ''3_1_cc_hw.pdf''
              \<longrightarrow> s_student_id r = s_student_id ?r3)"
    by (simp add: demo_db_def demo_row_def)
  have s3: "role demo_student = ''student'' \<and> user_id demo_student \<noteq> s_student_id ?r3"
    and s2: "role demo_student = ''student'' \<and> user_id demo_student = s_student_id ?r2"
    and fa: "role demo_faculty = ''faculty''"
    by (simp_all add: demo_student_def demo_faculty_def demo_row_def)
  have 1: "download_file (Some demo_student) ''9_9_zz_none.pdf'' demo_db
     = (demo_db, Fail NotFoundError ''File not found.'' ''dashboard'')"
    using download_file_outcomes [of demo_db "''9_9_zz_none.pdf''" demo_student] none by blast
  have 2: "download_file (Some demo_student) ''3_1_cc_hw.pdf'' demo_db
     = (demo_db, Fail AuthorizationError ''You are not allowed to access this file.''
          ''student_dashboard'')"
    using download_file_outcomes [of demo_db "''3_1_cc_hw.pdf''" demo_student] m3 o3 s3 by blast
  have 3: "download_file (Some demo_student) ''2_2_bb_hw.pdf'' demo_db
     = (demo_db, SendFromDirectory ''2_2_bb_hw.pdf'')"
    using download_file_outcomes [of demo_db "''2_2_bb_hw.pdf''" demo_student] m2 o2 s2 by blast
  have 4: "download_file (Some demo_faculty) ''3_1_cc_hw.pdf'' demo_db
     = (demo_db, SendFromDirectory ''3_1_cc_hw.pdf'')"
    using download_file_outcomes [of demo_db "''3_1_cc_hw.pdf''" demo_faculty] m3 o3 fa by blast
  show ?thesis using 1 2 3 4 by blast
qed

section \<open>Submitting: the failures\<close>

text \<open>
  Claim C3. \<open>submit\<close> answers with a ValidationError, leaving the store as it was,
  when the assignment id is missing (empty), when the file is missing or its name empty,
  when no split of the file name at its last dot leaves an extension whose lower-cased
  text is \<open>pdf\<close>, or when the first four bytes of the file are not \<open>%PDF\<close>. When all
  these checks pass and no assignment has the id, it answers ``Assignment not found.''
  (NotFoundError), again leaving the store, and so the submissions, as they were.
\<close>

theorem submit_failures:
  "((assignment_id = []
      \<or> file = None
      \<or> (\<exists>f. file = Some f \<and>
            (filename f = []
             \<or> (\<forall>base ext. filename f = base @ ''.'' @ ext \<and> CHR ''.'' \<notin> set ext
                    \<longrightarrow> lower ext \<noteq> ''pdf'')
             \<or> take 4 (stream f) \<noteq> ''%PDF'')))
     \<longrightarrow> (\<exists>msg. submit sv now token student assignment_id file db
                 = (db, Fail ValidationError msg ''student_dashboard'')))
   \<and> (assignment_id \<noteq> []
       \<and> (\<exists>f base ext. file = Some f \<and> filename f = base @ ''.'' @ ext \<and> CHR ''.'' \<notin> set ext
             \<and> lower ext = ''pdf'' \<and> take 4 (stream f) = ''%PDF'')
       \<and> (\<forall>a\<in>set (assignments db). sql_integer sv assignment_id \<noteq> Some (a_id a))
     \<longrightarrow> submit sv now token student assignment_id file db
           = (db, Fail NotFoundError ''Assignment not found.'' ''student_dashboard''))"
proof (intro conjI impI)
  assume bad: "assignment_id = []
      \<or> file = None
      \<or> (\<exists>f. file = Some f \<and>
            (filename f = []
             \<or> (\<forall>base ext. filename f = base @ ''.'' @ ext \<and> CHR ''.'' \<notin> set ext
                    \<longrightarrow> lower ext \<noteq> ''pdf'')
             \<or> take 4 (stream f) \<noteq> ''%PDF''))"
  then have "assignment_id = [] \<or> file = None
      \<or> (\<exists>f. file = Some f \<and> (filename f = [] \<or> \<not> allowed_file (filename f) \<or> \<not> is_pdf_content f))"
    unfolding allowed_file_iff is_pdf_content_def by blast
  then show "\<exists>msg. submit sv now token student assignment_id file db
                 = (db, Fail ValidationError msg ''student_dashboard'')"
    by (auto simp: submit_def)
next
  assume ok: "assignment_id \<noteq> []
       \<and> (\<exists>f base ext. file = Some f \<and> filename f = base @ ''.'' @ ext \<and> CHR ''.'' \<notin> set ext
             \<and> lower ext = ''pdf'' \<and> take 4 (stream f) = ''%PDF'')
       \<and> (\<forall>a\<in>set (assignments db). sql_integer sv assignment_id \<noteq> Some (a_id a))"
  then obtain f where f: "file = Some f" "allowed_file (filename f)" "is_pdf_content f"
    unfolding allowed_file_iff is_pdf_content_def by blast
  have ne: "filename f \<noteq> []" using f(2) by (auto simp: allowed_file_def)
  have "assignment_by_id sv assignment_id db = None"
    using ok by (auto simp: assignment_by_id_def find_None_iff split: option.splits)
  then show "submit sv now token student assignment_id file db
           = (db, Fail NotFoundError ''Assignment not found.'' ''student_dashboard'')"
    using ok f ne by (simp add: submit_def)
qed


text \<open>
  The five failures on the concrete store: no assignment id, no file, \<open>notes.txt\<close>,
  \<open>x.pdf\<close> with the content \<open>hello\<close>, and \<open>hw.PDF\<close> for assignment 9, which does
  not exist.
\<close>

theorem submit_failures_witness:
  "(\<exists>msg. submit demo_services ''2026-03-02 10:00:00'' ''ab12'' 2 []
            (Some \<lparr>filename = ''hw.pdf'', stream = ''%PDF-1.4''\<rparr>) demo_db
          = (demo_db, Fail ValidationError msg ''student_dashboard''))
   \<and> (\<exists>msg. submit demo_services ''2026-03-02 10:00:00'' ''ab12'' 2 ''1'' None demo_db
          = (demo_db, Fail ValidationError msg ''student_dashboard''))
   \<and> (\<exists>msg. submit demo_services ''2026-03-02 10:00:00'' ''ab12'' 2 ''1''
            (Some \<lparr>filename = ''notes.txt'', stream = ''%PDF-1.4''\<rparr>) demo_db
          = (demo_db, Fail ValidationError msg ''student_dashboard''))
   \<and> (\<exists>msg. submit demo_services ''2026-03-02 10:00:00'' ''ab12'' 2 ''1''
            (Some \<lparr>filename = ''x.pdf'', stream = ''hello''\<rparr>) demo_db
          = (demo_db, Fail ValidationError msg ''student_dashboard''))
   \<and> submit demo_services ''2026-03-02 10:00:00'' ''ab12'' 2 ''9''
            (Some \<lparr>filename = ''hw.PDF'', stream = ''%PDF-1.4''\<rparr>) demo_db
          = (demo_db, Fail NotFoundError ''Assignment not found.'' ''student_dashboard'')"
proof -
  let ?txt = "\<lparr>filename = ''notes.txt'', stream = ''%PDF-1.4''\<rparr>"
  let ?bad = "\<lparr>filename = ''x.pdf'', stream = ''hello''\<rparr>"
  let ?up = "\<lparr>filename = ''hw.PDF'', stream = ''%PDF-1.4''\<rparr>"
  have "\<not> allowed_file ''notes.txt''"
    by (simp add: allowed_file_def extension_def lower_def lower_char_def ALLOWED_EXTENSIONS_def)
  then have c: "\<forall>base ext. filename ?txt = base @ ''.'' @ ext \<and> CHR ''.'' \<notin> set ext
                    \<longrightarrow> lower ext \<noteq> ''pdf''"
    unfolding allowed_file_iff by auto
  have d: "take 4 (stream ?bad) \<noteq> ''%PDF''" by simp
  have low: "lower ''PDF'' = ''pdf''" by code_simp
  have e1: "filename ?up = ''hw'' @ ''.'' @ ''PDF'' \<and> CHR ''.'' \<notin> set ''PDF''
      \<and> lower ''PDF'' = ''pdf'' \<and> take 4 (stream ?up) = ''%PDF''"
    using low by simp
  have e2: "\<forall>a\<in>set (assignments demo_db). sql_integer demo_services ''9'' \<noteq> Some (a_id a)"
    by (simp add: demo_db_def demo_services_def digit_in_def digit_val_def)
  have e3: "''9'' \<noteq> ([] :: string)" and b3: "''1'' \<noteq> ([] :: string)" by simp_all
  note T = submit_failures [where sv = demo_services and now = "''2026-03-02 10:00:00''"
      and token = "''ab12''" and student = 2 and db = demo_db]
  have 1: "\<exists>msg. submit demo_services ''2026-03-02 10:00:00'' ''ab12'' 2 []
            (Some \<lparr>filename = ''hw.pdf'', stream = ''%PDF-1.4''\<rparr>) demo_db
          = (demo_db, Fail ValidationError msg ''student_dashboard'')"
    using T [of "[]" "Some \<lparr>filename = ''hw.pdf'', stream = ''%PDF-1.4''\<rparr>"] by blast
  have 2: "\<exists>msg. submit demo_services ''2026-03-02 10:00:00'' ''ab12'' 2 ''1'' None demo_db
          = (demo_db, Fail ValidationError msg ''student_dashboard'')"
    using T [of "''1''" None] by blast
  have 3: "\<exists>msg. submit demo_services ''2026-03-02 10:00:00'' ''ab12'' 2 ''1'' (Some ?txt) demo_db
          = (demo_db, Fail ValidationError msg ''student_dashboard'')"
    using T [of "''1''" "Some ?txt"] c by blast
  have 4: "\<exists>msg. submit demo_services ''2026-03-02 10:00:00'' ''ab12'' 2 ''1'' (Some ?bad) demo_db
          = (demo_db, Fail ValidationError msg ''student_dashboard'')"
    using T [of "''1''" "Some ?bad"] d by blast
  have 5: "submit demo_services ''2026-03-02 10:00:00'' ''ab12'' 2 ''9'' (Some ?up) demo_db
          = (demo_db, Fail NotFoundError ''Assignment not found.'' ''student_dashboard'')"
    using T [of "''9''" "Some ?up"] e1 e2 e3 by blast
  show ?thesis using 1 2 3 4 5 by blast
qed

section \<open>Submitting: a failure leaves the earlier submission alone\<close>

text \<open>
  Claim C10. Whenever \<open>submit\<close> fails, whatever the reason, the store it returns is
  the store it was given: the Pending submissions of the student for any assignment and
  the upload directory are unchanged. The store changes only after the assignment id and
  the file have passed every check and the assignment has been found.
\<close>

theorem submit_failure_keeps_store:
  assumes "submit sv now token student assignment_id file db = (db', out)"
  shows "(\<forall>e msg target. out = Fail e msg target \<longrightarrow>
            db' = db \<and> pending_for student k db' = pending_for student k db
            \<and> uploads db' = uploads db)
    \<and> (db' \<noteq> db \<longrightarrow>
          assignment_id \<noteq> []
          \<and> (\<exists>f. file = Some f \<and> filename f \<noteq> [] \<and> allowed_file (filename f)
                 \<and> is_pdf_content f)
          \<and> assignment_by_id sv assignment_id db \<noteq> None)"
proof (intro conjI allI impI)
  fix e msg target
  assume "out = Fail e msg target"
  then have "db' = db"
    using assms by (auto simp: submit_def split: if_splits option.splits)
  then show "db' = db" and "pending_for student k db' = pending_for student k db"
    and "uploads db' = uploads db" by simp_all
next
  assume ch: "db' \<noteq> db"
  then show "assignment_id \<noteq> []"
    using assms by (auto simp: submit_def split: if_splits option.splits)
  from ch show "\<exists>f. file = Some f \<and> filename f \<noteq> [] \<and> allowed_file (filename f)
                 \<and> is_pdf_content f"
    using assms by (auto simp: submit_def split: if_splits option.splits)
  from ch show "assignment_by_id sv assignment_id db \<noteq> None"
    using assms by (auto simp: submit_def split: if_splits option.splits)
qed

text \<open>
  On the concrete store student 2 has a Pending submission for assignment 1; an upload
  of \<open>x.pdf\<close> with the content \<open>hello\<close> fails and leaves that row and its file.
\<close>

theorem submit_failure_keeps_store_witness:
  "snd (submit demo_services ''2026-03-02 10:00:00'' ''ab12'' 2 ''1''
      (Some \<lparr>filename = ''x.pdf'', stream = ''hello''\<rparr>) demo_db)
     = Fail ValidationError ''Invalid file content. Please upload a valid PDF.''
          ''student_dashboard''
   \<and> pending_for 2 1 (fst (submit demo_services ''2026-03-02 10:00:00'' ''ab12'' 2 ''1''
      (Some \<lparr>filename = ''x.pdf'', stream = ''hello''\<rparr>) demo_db))
     = [demo_row 1 2 1 ''2_1_aa_hw.pdf'' ''Pending'']
   \<and> uploads (fst (submit demo_services ''2026-03-02 10:00:00'' ''ab12'' 2 ''1''
      (Some \<lparr>filename = ''x.pdf'', stream = ''hello''\<rparr>) demo_db)) ''2_1_aa_hw.pdf''
     = Some ''%PDF-1''"
proof -
  let ?run = "submit demo_services ''2026-03-02 10:00:00'' ''ab12'' 2 ''1''
      (Some \<lparr>filename = ''x.pdf'', stream = ''hello''\<rparr>) demo_db"
  have out: "snd ?run = Fail ValidationError ''Invalid file content. Please upload a valid PDF.''
          ''student_dashboard''"
    by (simp add: submit_def allowed_file_def extension_def lower_def lower_char_def
        ALLOWED_EXTENSIONS_def is_pdf_content_def)
  have p: "pending_for 2 1 demo_db = [demo_row 1 2 1 ''2_1_aa_hw.pdf'' ''Pending'']"
    by (simp add: pending_for_def is_pending_for_def demo_db_def demo_row_def)
  have u: "uploads demo_db ''2_1_aa_hw.pdf'' = Some ''%PDF-1''"
    by (simp add: demo_db_def)
  have r: "?run = (fst ?run, snd ?run)" by simp
  from submit_failure_keeps_store [OF r, of 1] out
  have "pending_for 2 1 (fst ?run) = pending_for 2 1 demo_db
      \<and> uploads (fst ?run) = uploads demo_db"
    by blast
  with out p u show ?thesis by (simp only: simp_thms)
qed

section \<open>Reviewing a submission\<close>

text \<open>
  Claim C2. \<open>review\<close>, on the fields as the handler holds them, answers ``Invalid
  action.'' (ValidationError) when the action is neither \<open>Approved\<close> nor \<open>Rejected\<close>,
  and ``Submission not found.'' (NotFoundError) when the action is one of the two and no
  submission has the id. Otherwise it succeeds and writes, in the row with the id and in
  no other, the action as status, the comment, the acting faculty member as reviewer and
  the clock's text as review time. Nothing is asked of the faculty member, of the owner
  or of the present status of the row: any faculty member reviews any submission, and a
  second review of the reviewed row is accepted and writes its own values. A session of
  role \<open>faculty\<close> posting the review form reaches \<open>review\<close> with its own user id and
  the stripped form fields.
\<close>

theorem review_outcomes:
  "(action \<notin> {''Approved'', ''Rejected''} \<longrightarrow>
      review sv now faculty sid action comment db
        = (db, Fail ValidationError ''Invalid action.'' ''faculty_dashboard''))
   \<and> (action \<in> {''Approved'', ''Rejected''}
       \<and> (\<forall>r\<in>set (submissions db). sql_integer sv sid \<noteq> Some (s_id r)) \<longrightarrow>
      review sv now faculty sid action comment db
        = (db, Fail NotFoundError ''Submission not found.'' ''faculty_dashboard''))
   \<and> (\<forall>row\<in>set (submissions db).
        action \<in> {''Approved'', ''Rejected''} \<and> sql_integer sv sid = Some (s_id row)
        \<and> distinct (map s_id (submissions db)) \<longrightarrow>
        (\<exists>db'. review sv now faculty sid action comment db
                  = (db', Success (''Submission '' @ lower action @ '' successfully.'')
                       ''faculty_dashboard'')
           \<and> submissions db'
               = map (\<lambda>r. if r = row
                           then row\<lparr>s_status := action, s_faculty_comment := comment,
                                    s_reviewed_at := now, s_reviewed_by := Some faculty\<rparr>
                           else r) (submissions db)
           \<and> (\<forall>now2 faculty2 action2 comment2.
                 action2 \<in> {''Approved'', ''Rejected''} \<longrightarrow>
                 (\<exists>db''. review sv now2 faculty2 sid action2 comment2 db'
                           = (db'', Success (''Submission '' @ lower action2 @ '' successfully.'')
                                ''faculty_dashboard'')
                    \<and> submissions db''
                        = map (\<lambda>r. if r = row
                                    then row\<lparr>s_status := action2, s_faculty_comment := comment2,
                                             s_reviewed_at := now2,
                                             s_reviewed_by := Some faculty2\<rparr>
                                    else r) (submissions db)))))
   \<and> (role se = ''faculty'' \<and> strip (form_get f ''form_type'') = ''review'' \<longrightarrow>
        faculty_dashboard_post sv now (Some se) f db
          = review sv now (user_id se) (strip (form_get f ''submission_id''))
              (strip (form_get f ''action'')) (strip (form_get f ''comment'')) db)"
proof (intro conjI impI ballI)
  assume "action \<notin> {''Approved'', ''Rejected''}"
  then show "review sv now faculty sid action comment db
        = (db, Fail ValidationError ''Invalid action.'' ''faculty_dashboard'')"
    by (simp add: review_def)
next
  assume h: "action \<in> {''Approved'', ''Rejected''}
       \<and> (\<forall>r\<in>set (submissions db). sql_integer sv sid \<noteq> Some (s_id r))"
  then have "submission_by_id sv sid db = None"
    by (auto simp: submission_by_id_def find_None_iff split: option.splits)
  with h show "review sv now faculty sid action comment db
        = (db, Fail NotFoundError ''Submission not found.'' ''faculty_dashboard'')"
    by (simp add: review_def)
next
  fix row
  assume row: "row \<in> set (submissions db)"
    and h: "action \<in> {''Approved'', ''Rejected''} \<and> sql_integer sv sid = Some (s_id row)
        \<and> distinct (map s_id (submissions db))"
  let ?k = "s_id row"
  let ?db' = "db\<lparr>submissions := map (apply_review ?k action comment now faculty) (submissions db)\<rparr>"
  from h have act: "action \<in> {''Approved'', ''Rejected''}" and sid: "sql_integer sv sid = Some ?k"
    and dist: "distinct (map s_id (submissions db))" by simp_all
  have k: "?k \<in> s_id ` set (submissions db)" using row by simp
  have 1: "review sv now faculty sid action comment db
      = (?db', Success (''Submission '' @ lower action @ '' successfully.'') ''faculty_dashboard'')"
    by (rule review_success [OF act sid k])
  have 2: "submissions ?db'
      = map (\<lambda>r. if r = row
                  then row\<lparr>s_status := action, s_faculty_comment := comment,
                           s_reviewed_at := now, s_reviewed_by := Some faculty\<rparr>
                  else r) (submissions db)"
    using apply_review_only_row [OF dist row] by simp
  have 3: "\<forall>now2 faculty2 action2 comment2.
             action2 \<in> {''Approved'', ''Rejected''} \<longrightarrow>
             (\<exists>db''. review sv now2 faculty2 sid action2 comment2 ?db'
                       = (db'', Success (''Submission '' @ lower action2 @ '' successfully.'')
                            ''faculty_dashboard'')
                \<and> submissions db''
                    = map (\<lambda>r. if r = row
                                then row\<lparr>s_status := action2, s_faculty_comment := comment2,
                                         s_reviewed_at := now2, s_reviewed_by := Some faculty2\<rparr>
                                else r) (submissions db))"
  proof (intro allI impI)
    fix now2 faculty2 action2 comment2
    assume act2: "action2 \<in> {''Approved'', ''Rejected''}"
    let ?db'' = "?db'\<lparr>submissions :=
        map (apply_review ?k action2 comment2 now2 faculty2) (submissions ?db')\<rparr>"
    have k': "?k \<in> s_id ` set (submissions ?db')"
      using k by (simp add: image_image apply_review_id)
    have a: "review sv now2 faculty2 sid action2 comment2 ?db'
        = (?db'', Success (''Submission '' @ lower action2 @ '' successfully.'')
             ''faculty_dashboard'')"
      by (rule review_success [OF act2 sid k'])
    have "submissions ?db''
        = map (apply_review ?k action2 comment2 now2 faculty2) (submissions db)"
      by (simp add: comp_def apply_review_twice)
    then have b: "submissions ?db''
        = map (\<lambda>r. if r = row
                    then row\<lparr>s_status := action2, s_faculty_comment := comment2,
                             s_reviewed_at := now2, s_reviewed_by := Some faculty2\<rparr>
                    else r) (submissions db)"
      using apply_review_only_row [OF dist row] by simp
    show "\<exists>db''. review sv now2 faculty2 sid action2 comment2 ?db'
                       = (db'', Success (''Submission '' @ lower action2 @ '' successfully.'')
                            ''faculty_dashboard'')
                \<and> submissions db''
                    = map (\<lambda>r. if r = row
                                then row\<lparr>s_status := action2, s_faculty_comment := comment2,
                                         s_reviewed_at := now2, s_reviewed_by := Some faculty2\<rparr>
                                else r) (submissions db)"
      using a b by blast
  qed
  show "\<exists>db'. review sv now faculty sid action comment db
                  = (db', Success (''Submission '' @ lower action @ '' successfully.'')
                       ''faculty_dashboard'')
           \<and> submissions db'
               = map (\<lambda>r. if r = row
                           then row\<lparr>s_status := action, s_faculty_comment := comment,
                                    s_reviewed_at := now, s_reviewed_by := Some faculty\<rparr>
                           else r) (submissions db)
           \<and> (\<forall>now2 faculty2 action2 comment2.
                 action2 \<in> {''Approved'', ''Rejected''} \<longrightarrow>
                 (\<exists>db''. review sv now2 faculty2 sid action2 comment2 db'
                           = (db'', Success (''Submission '' @ lower action2 @ '' successfully.'')
                                ''faculty_dashboard'')
                    \<and> submissions db''
                        = map (\<lambda>r. if r = row
                                    then row\<lparr>s_status := action2, s_faculty_comment := comment2,
                                             s_reviewed_at := now2,
                                             s_reviewed_by := Some faculty2\<rparr>
                                    else r) (submissions db)))"
    using 1 2 3 by (intro exI [of _ ?db'] conjI)
next
  assume "role se = ''faculty'' \<and> strip (form_get f ''form_type'') = ''review''"
  then show "faculty_dashboard_post sv now (Some se) f db
          = review sv now (user_id se) (strip (form_get f ''submission_id''))
              (strip (form_get f ''action'')) (strip (form_get f ''comment'')) db"
    by (simp add: faculty_dashboard_post_def login_required_def)
qed


text \<open>
  On the concrete store: an unknown action, an unknown id, the rejection of the
  already Approved submission 2, and the posted form reaching \<open>review\<close>.
\<close>

theorem review_outcomes_witness:
  "review demo_services ''2026-03-03 09:00:00'' 1 ''2'' ''Maybe'' ''Redo'' demo_db
     = (demo_db, Fail ValidationError ''Invalid action.'' ''faculty_dashboard'')
   \<and> review demo_services ''2026-03-03 09:00:00'' 1 ''7'' ''Approved'' ''Redo'' demo_db
     = (demo_db, Fail NotFoundError ''Submission not found.'' ''faculty_dashboard'')
   \<and> snd (review demo_services ''2026-03-03 09:00:00'' 1 ''2'' ''Rejected'' ''Redo'' demo_db)
     = Success (''Submission '' @ lower ''Rejected'' @ '' successfully.'') ''faculty_dashboard''
   \<and> map s_status
        (submissions (fst (review demo_services ''2026-03-03 09:00:00'' 1 ''2'' ''Rejected''
           ''Redo'' demo_db)))
     = [''Pending'', ''Rejected'', ''Pending'']
   \<and> faculty_dashboard_post demo_services ''2026-03-03 09:00:00'' (Some demo_faculty)
        demo_review_form demo_db
     = review demo_services ''2026-03-03 09:00:00'' 1 ''1'' ''Approved'' ''Well done'' demo_db"
proof -
  let ?r2 = "demo_row 2 2 2 ''2_2_bb_hw.pdf'' ''Approved''"
  let ?now = "''2026-03-03 09:00:00''"
  note T = review_outcomes [where sv = demo_services and now = ?now and db = demo_db
      and faculty = 1 and comment = "''Redo''"]
  have a: "''Maybe'' \<notin> {''Approved'', ''Rejected''}" by simp
  have b: "''Approved'' \<in> {''Approved'', ''Rejected''}
      \<and> (\<forall>r\<in>set (submissions demo_db). sql_integer demo_services ''7'' \<noteq> Some (s_id r))"
    by (simp add: demo_sql_integer demo_db_def demo_row_def)
  have m2: "?r2 \<in> set (submissions demo_db)" by (simp add: demo_db_def)
  have c: "''Rejected'' \<in> {''Approved'', ''Rejected''}
      \<and> sql_integer demo_services ''2'' = Some (s_id ?r2)
      \<and> distinct (map s_id (submissions demo_db))"
    by (simp add: demo_sql_integer demo_db_def demo_row_def)
  have d: "role demo_faculty = ''faculty''
      \<and> strip (form_get demo_review_form ''form_type'') = ''review''"
    by (simp add: demo_faculty_def demo_form_fields)
  have 1: "review demo_services ?now 1 ''2'' ''Maybe'' ''Redo'' demo_db
     = (demo_db, Fail ValidationError ''Invalid action.'' ''faculty_dashboard'')"
    using T [where action = "''Maybe''" and sid = "''2''"] a by blast
  have 2: "review demo_services ?now 1 ''7'' ''Approved'' ''Redo'' demo_db
     = (demo_db, Fail NotFoundError ''Submission not found.'' ''faculty_dashboard'')"
    using T [where action = "''Approved''" and sid = "''7''"] b by blast
  from T [where action = "''Rejected''" and sid = "''2''"] m2 c obtain db' where
    r: "review demo_services ?now 1 ''2'' ''Rejected'' ''Redo'' demo_db
          = (db', Success (''Submission '' @ lower ''Rejected'' @ '' successfully.'')
               ''faculty_dashboard'')"
    and s: "submissions db'
          = map (\<lambda>r. if r = ?r2
                      then ?r2\<lparr>s_status := ''Rejected'', s_faculty_comment := ''Redo'',
                               s_reviewed_at := ?now, s_reviewed_by := Some 1\<rparr>
                      else r) (submissions demo_db)"
    by blast
  have "map s_status (submissions db') = [''Pending'', ''Rejected'', ''Pending'']"
    unfolding s by (simp add: demo_db_def demo_row_def)
  then have 3: "snd (review demo_services ?now 1 ''2'' ''Rejected'' ''Redo'' demo_db)
       = Success (''Submission '' @ lower ''Rejected'' @ '' successfully.'') ''faculty_dashboard''
     \<and> map s_status
          (submissions (fst (review demo_services ?now 1 ''2'' ''Rejected'' ''Redo'' demo_db)))
       = [''Pending'', ''Rejected'', ''Pending'']"
    by (simp only: r fst_conv snd_conv simp_thms)
  have "faculty_dashboard_post demo_services ?now (Some demo_faculty) demo_review_form demo_db
     = review demo_services ?now (user_id demo_faculty)
         (strip (form_get demo_review_form ''submission_id''))
         (strip (form_get demo_review_form ''action''))
         (strip (form_get demo_review_form ''comment'')) demo_db"
    using T [where se = demo_faculty and f = demo_review_form] d by blast
  then have 4: "faculty_dashboard_post demo_services ?now (Some demo_faculty) demo_review_form
        demo_db
     = review demo_services ?now 1 ''1'' ''Approved'' ''Well done'' demo_db"
    by (simp only: demo_form_fields demo_faculty_def session.simps)
  show ?thesis using 1 2 3 4 by (simp only: simp_thms)
qed

section \<open>The comment of a review\<close>




section \<open>The late flag\<close>

text \<open>
  Claim C7. In every row of the student's view the \<open>late\<close> flag is true exactly when
  the deadline and the submission time both parse and the submission time is strictly
  after the deadline; a text parses when it parses as \<open>%Y-%m-%d %H:%M:%S\<close> or as
  \<open>%Y-%m-%d %H:%M\<close>. A submission at \<open>2026-03-05 23:59:00\<close> against the deadline
  \<open>2026-03-05 23:59\<close> is not late (the two parse to the same instant), and one a second
  later is late.
\<close>

theorem late_flag:
  "(\<forall>v\<in>set (submissions_view student db).
      v_late v = (\<exists>dead sub. parse_dt (v_deadline v) = Some dead
                    \<and> parse_dt (v_submitted_at v) = Some sub \<and> dead < sub))
   \<and> (parse_dt t \<noteq> None) = (strptime_seconds t \<noteq> None \<or> strptime_minutes t \<noteq> None)
   \<and> parse_dt ''2026-03-05 23:59'' = Some (2026, 3, 5, 23, 59, 0)
   \<and> parse_dt ''2026-03-05 23:59:00'' = Some (2026, 3, 5, 23, 59, 0)
   \<and> parse_dt ''2026-03-05 23:59:01'' = Some (2026, 3, 5, 23, 59, 1)
   \<and> \<not> late ''2026-03-05 23:59'' ''2026-03-05 23:59:00''
   \<and> late ''2026-03-05 23:59'' ''2026-03-05 23:59:01''"
proof (intro conjI ballI)
  fix v assume "v \<in> set (submissions_view student db)"
  then obtain s a where "v = view_row s a" using view_rows by blast
  then have "v_late v = late (v_deadline v) (v_submitted_at v)"
    by (simp add: view_row_def)
  then show "v_late v = (\<exists>dead sub. parse_dt (v_deadline v) = Some dead
                    \<and> parse_dt (v_submitted_at v) = Some sub \<and> dead < sub)"
    by (simp only: late_iff)
next
  show "(parse_dt t \<noteq> None) = (strptime_seconds t \<noteq> None \<or> strptime_minutes t \<noteq> None)"
    by (simp add: parse_dt_def split: option.splits)
next
  show "parse_dt ''2026-03-05 23:59'' = Some (2026, 3, 5, 23, 59, 0)" by (rule parse_deadline)
next
  show "parse_dt ''2026-03-05 23:59:00'' = Some (2026, 3, 5, 23, 59, 0)" by (rule parse_on_time)
next
  show "parse_dt ''2026-03-05 23:59:01'' = Some (2026, 3, 5, 23, 59, 1)"
    by (rule parse_one_second_later)
next
  show "\<not> late ''2026-03-05 23:59'' ''2026-03-05 23:59:00''"
    by (simp add: late_def parse_deadline parse_on_time)
next
  show "late ''2026-03-05 23:59'' ''2026-03-05 23:59:01''"
    by (simp add: late_def parse_deadline parse_one_second_later)
qed

text \<open>The row of the late submission in the concrete store.\<close>

theorem late_flag_witness:
  "(\<exists>v. submissions_view 2 demo_late_db = [v] \<and> v_late v
        \<and> v_deadline v = ''2026-03-05 23:59'' \<and> v_submitted_at v = ''2026-03-05 23:59:01''
        \<and> (\<exists>dead sub. parse_dt (v_deadline v) = Some dead
              \<and> parse_dt (v_submitted_at v) = Some sub \<and> dead < sub))"
proof -
  let ?v = "\<lparr>v_id = 4, v_file_name = ''2_1_dd_hw.pdf'', v_submitted_at = ''2026-03-05 23:59:01'',
         v_status = ''Pending'', v_faculty_comment = [], v_reviewed_at = [],
         v_title = ''Data Structures - Week 1'', v_deadline = ''2026-03-05 23:59'',
         v_late = True\<rparr>"
  have m: "?v \<in> set (submissions_view 2 demo_late_db)" by (simp add: demo_late_view)
  from late_flag [of 2 demo_late_db] have
    "\<forall>v\<in>set (submissions_view 2 demo_late_db).
      v_late v = (\<exists>dead sub. parse_dt (v_deadline v) = Some dead
                    \<and> parse_dt (v_submitted_at v) = Some sub \<and> dead < sub)"
    by (rule conjunct1)
  from bspec [OF this m] have
    "\<exists>dead sub. parse_dt (v_deadline ?v) = Some dead
        \<and> parse_dt (v_submitted_at ?v) = Some sub \<and> dead < sub"
    by simp
  then show ?thesis using demo_late_view by (intro exI [of _ ?v]) simp
qed

section \<open>Creating and listing assignments\<close>




section \<open>Logging in\<close>

text \<open>
  Claim C6. \<open>login\<close> looks the user up by the e-mail of the form, stripped and
  lower-cased, together with the claimed role. Where e-mails are unique (the column is
  UNIQUE), a user of that e-mail with another role than the claimed one is not found,
  whatever the password, and the answer is the very outcome a wrong password gets under
  the right role: the same message, the same redirect, no session, the store unchanged.
  A stored credential that starts with neither \<open>pbkdf2:\<close> nor \<open>scrypt:\<close> is
  compared with the password by equality; a login that succeeds on such a credential
  replaces it, for the user's id, by \<open>generate_password_hash\<close> of the password.
\<close>

theorem login_outcomes:
  "login sv now f db
     = authenticate sv now (lower (strip (form_get f ''email'')))
         (strip (form_get f ''password'')) (strip (form_get f ''role'')) db
   \<and> ((\<forall>u\<in>set (users db). u_email u = email \<longrightarrow> u_role u \<noteq> claimed) \<longrightarrow>
        authenticate sv now email password claimed db = (db, generic_failure, None))
   \<and> (\<forall>u\<in>set (users db). distinct (map u_email (users db)) \<and> u_email u = email \<longrightarrow>
        (u_role u \<noteq> claimed \<longrightarrow>
           authenticate sv now email password claimed db = (db, generic_failure, None))
        \<and> (u_role u = claimed \<and> \<not> fst (verify_password sv password (u_password u)) \<longrightarrow>
           authenticate sv now email password claimed db = (db, generic_failure, None))
        \<and> (u_role u = claimed \<and> \<not> startswith (u_password u) ''pbkdf2:''
            \<and> \<not> startswith (u_password u) ''scrypt:'' \<and> password = u_password u \<longrightarrow>
           (\<exists>db'. authenticate sv now email password claimed db
                     = (db', Success (''Welcome, '' @ u_name u @ ''!'') ''dashboard'',
                        Some \<lparr>user_id = u_id u, name = u_name u, role = u_role u\<rparr>)
              \<and> users db'
                  = map (\<lambda>v. if u_id v = u_id u
                              then v\<lparr>u_password := generate_password_hash sv password\<rparr>
                              else v) (users db)
              \<and> (\<forall>v\<in>set (users db'). u_id v = u_id u
                     \<longrightarrow> u_password v = generate_password_hash sv password))))
   \<and> (\<not> startswith stored ''pbkdf2:'' \<and> \<not> startswith stored ''scrypt:'' \<longrightarrow>
        verify_password sv raw stored = (raw = stored, True))
   \<and> (startswith stored ''pbkdf2:'' \<or> startswith stored ''scrypt:'' \<longrightarrow>
        verify_password sv raw stored = (check_password_hash sv stored raw, False))
   \<and> generic_failure = Fail AuthError ''Invalid credentials or wrong role selected.'' ''login''"
proof (intro conjI impI ballI)
  show "login sv now f db
     = authenticate sv now (lower (strip (form_get f ''email'')))
         (strip (form_get f ''password'')) (strip (form_get f ''role'')) db"
    by (simp add: login_def)
next
  assume "\<forall>u\<in>set (users db). u_email u = email \<longrightarrow> u_role u \<noteq> claimed"
  then show "authenticate sv now email password claimed db = (db, generic_failure, None)"
    by (rule authenticate_no_user)
next
  fix u
  assume u: "u \<in> set (users db)"
    and h: "distinct (map u_email (users db)) \<and> u_email u = email"
  have inj: "inj_on u_email (set (users db))" using h by (simp add: distinct_map)
  {
    assume wrong: "u_role u \<noteq> claimed"
    have "\<forall>v\<in>set (users db). u_email v = email \<longrightarrow> u_role v \<noteq> claimed"
    proof (intro ballI impI)
      fix v assume v: "v \<in> set (users db)" and "u_email v = email"
      then have "u_email v = u_email u" using h by simp
      with inj have "v = u" using v u by (rule inj_onD)
      then show "u_role v \<noteq> claimed" using wrong by simp
    qed
    then show "authenticate sv now email password claimed db = (db, generic_failure, None)"
      by (rule authenticate_no_user)
  }
  {
    assume a: "u_role u = claimed \<and> \<not> fst (verify_password sv password (u_password u))"
    then have "find (\<lambda>u. u_email u = email \<and> u_role u = claimed) (users db) = Some u"
      using authenticate_found u h by blast
    then show "authenticate sv now email password claimed db = (db, generic_failure, None)"
      using a by (auto simp: authenticate_def generic_failure_def split: prod.splits)
  }
  {
    assume a: "u_role u = claimed \<and> \<not> startswith (u_password u) ''pbkdf2:''
            \<and> \<not> startswith (u_password u) ''scrypt:'' \<and> password = u_password u"
    let ?h = "generate_password_hash sv password"
    let ?db' = "insert_login_log (u_id u) now (set_password (u_id u) ?h db)"
    have fnd: "find (\<lambda>u. u_email u = email \<and> u_role u = claimed) (users db) = Some u"
      using authenticate_found u h a by blast
    have v: "verify_password sv password (u_password u) = (True, True)"
      using a by (simp add: verify_password_def)
    have 1: "authenticate sv now email password claimed db
        = (?db', Success (''Welcome, '' @ u_name u @ ''!'') ''dashboard'',
           Some \<lparr>user_id = u_id u, name = u_name u, role = u_role u\<rparr>)"
      using fnd v by (simp add: authenticate_def hash_password_def)
    have 2: "users ?db'
        = map (\<lambda>v. if u_id v = u_id u then v\<lparr>u_password := ?h\<rparr> else v) (users db)"
      by (simp add: insert_login_log_def set_password_def)
    have 3: "\<forall>v\<in>set (users ?db'). u_id v = u_id u \<longrightarrow> u_password v = ?h"
      unfolding 2 by auto
    show "\<exists>db'. authenticate sv now email password claimed db
                     = (db', Success (''Welcome, '' @ u_name u @ ''!'') ''dashboard'',
                        Some \<lparr>user_id = u_id u, name = u_name u, role = u_role u\<rparr>)
              \<and> users db'
                  = map (\<lambda>v. if u_id v = u_id u
                              then v\<lparr>u_password := generate_password_hash sv password\<rparr>
                              else v) (users db)
              \<and> (\<forall>v\<in>set (users db'). u_id v = u_id u
                     \<longrightarrow> u_password v = generate_password_hash sv password)"
      using 1 2 3 by (intro exI [of _ ?db'] conjI)
  }
next
  assume "\<not> startswith stored ''pbkdf2:'' \<and> \<not> startswith stored ''scrypt:''"
  then show "verify_password sv raw stored = (raw = stored, True)"
    by (simp add: verify_password_def)
next
  assume "startswith stored ''pbkdf2:'' \<or> startswith stored ''scrypt:''"
  then show "verify_password sv raw stored = (check_password_hash sv stored raw, False)"
    by (simp add: verify_password_def)
next
  show "generic_failure = Fail AuthError ''Invalid credentials or wrong role selected.'' ''login''"
    by (simp add: generic_failure_def)
qed


text \<open>
  The student of the concrete store logs in with the right password as faculty, with a
  wrong password as student (the same answer both times), and with the right password
  as student, after which the plain-text password is stored hashed.
\<close>

theorem login_outcomes_witness:
  "login demo_services ''2026-03-02 08:00:00'' (demo_login_form ''student123'' ''faculty'')
       demo_users_db
     = (demo_users_db, generic_failure, None)
   \<and> login demo_services ''2026-03-02 08:00:00'' (demo_login_form ''nope'' ''student'')
       demo_users_db
     = (demo_users_db, generic_failure, None)
   \<and> snd (login demo_services ''2026-03-02 08:00:00'' (demo_login_form ''student123'' ''student'')
       demo_users_db)
     = (Success ''Welcome, Arun Student!'' ''dashboard'',
        Some \<lparr>user_id = 2, name = ''Arun Student'', role = ''student''\<rparr>)
   \<and> map u_password
        (users (fst (login demo_services ''2026-03-02 08:00:00''
           (demo_login_form ''student123'' ''student'') demo_users_db)))
     = [''scrypt:faculty123'', ''scrypt:student123'']"
proof -
  let ?u = "\<lparr>u_id = 2, u_name = ''Arun Student'', u_email = ''arun@student.edu'',
          u_password = ''student123'', u_role = ''student''\<rparr>"
  let ?now = "''2026-03-02 08:00:00''"
  have m: "?u \<in> set (users demo_users_db)" by (simp add: demo_users_db_def)
  have d: "distinct (map u_email (users demo_users_db)) \<and> u_email ?u = ''arun@student.edu''"
    by (simp add: demo_users_db_def)
  note T = login_outcomes [where sv = demo_services and now = ?now and db = demo_users_db
      and email = "''arun@student.edu''"]
  have l: "\<And>pw rl. login demo_services ?now (demo_login_form pw rl) demo_users_db
      = authenticate demo_services ?now ''arun@student.edu'' (strip pw) (strip rl) demo_users_db"
  proof -
    fix pw rl
    from T [where f = "demo_login_form pw rl"]
    have "login demo_services ?now (demo_login_form pw rl) demo_users_db
      = authenticate demo_services ?now
          (lower (strip (form_get (demo_login_form pw rl) ''email'')))
          (strip (form_get (demo_login_form pw rl) ''password''))
          (strip (form_get (demo_login_form pw rl) ''role'')) demo_users_db"
      by (rule conjunct1)
    then show "login demo_services ?now (demo_login_form pw rl) demo_users_db
      = authenticate demo_services ?now ''arun@student.edu'' (strip pw) (strip rl) demo_users_db"
      by (simp only: demo_login_fields)
  qed
  have a: "u_role ?u \<noteq> ''faculty''" by simp
  have 1: "authenticate demo_services ?now ''arun@student.edu'' ''student123'' ''faculty''
       demo_users_db = (demo_users_db, generic_failure, None)"
    using T [where claimed = "''faculty''" and password = "''student123''"] m d a by blast
  have b: "u_role ?u = ''student''
      \<and> \<not> fst (verify_password demo_services ''nope'' (u_password ?u))"
    by (simp add: verify_password_def startswith_def)
  have 2: "authenticate demo_services ?now ''arun@student.edu'' ''nope'' ''student''
       demo_users_db = (demo_users_db, generic_failure, None)"
    using T [where claimed = "''student''" and password = "''nope''"] m d b by blast
  have c: "u_role ?u = ''student'' \<and> \<not> startswith (u_password ?u) ''pbkdf2:''
      \<and> \<not> startswith (u_password ?u) ''scrypt:'' \<and> ''student123'' = u_password ?u"
    by (simp add: startswith_def)
  from T [where claimed = "''student''" and password = "''student123''"] m d c
  obtain db' where
    r: "authenticate demo_services ?now ''arun@student.edu'' ''student123'' ''student''
          demo_users_db
        = (db', Success (''Welcome, '' @ u_name ?u @ ''!'') ''dashboard'',
           Some \<lparr>user_id = u_id ?u, name = u_name ?u, role = u_role ?u\<rparr>)"
    and us: "users db'
        = map (\<lambda>v. if u_id v = u_id ?u
                    then v\<lparr>u_password := generate_password_hash demo_services ''student123''\<rparr>
                    else v) (users demo_users_db)"
    by blast
  have pw: "map u_password (users db') = [''scrypt:faculty123'', ''scrypt:student123'']"
    unfolding us by (simp add: demo_users_db_def demo_services_def)
  have 3: "snd (authenticate demo_services ?now ''arun@student.edu'' ''student123'' ''student''
         demo_users_db)
       = (Success ''Welcome, Arun Student!'' ''dashboard'',
          Some \<lparr>user_id = 2, name = ''Arun Student'', role = ''student''\<rparr>)
     \<and> map u_password
          (users (fst (authenticate demo_services ?now ''arun@student.edu'' ''student123''
             ''student'' demo_users_db)))
       = [''scrypt:faculty123'', ''scrypt:student123'']"
    unfolding r using pw by simp
  show ?thesis
    unfolding l demo_strips using 1 2 3 by (simp only: simp_thms)
qed

section \<open>At most one Pending submission\<close>

text \<open>
  Claim C1. In every store the application can reach from the fresh database, a student
  has at most one Pending submission for an assignment. A submit that passes the checks
  succeeds in two steps, \<open>remove_old\<close> and then \<open>store_new\<close>, and keeps the
  invariant; afterwards the student has exactly one Pending submission for the
  assignment. A Pending submission of the pair that existed before is gone from the
  table after the first step already, and so is its file name from the upload directory;
  it is not in the final table, and the number of rows of the pair is what it was. When
  there was no Pending submission of the pair, the number of rows of the pair grows by
  one. Every row that is not Pending (Approved or Rejected), of any student and
  assignment, is still in the table.
\<close>

theorem pending_submission_unique:
  assumes "reachable sv db"
  shows "length (pending_for student' k' db) \<le> 1
    \<and> (aid \<noteq> [] \<and> filename f \<noteq> [] \<and> allowed_file (filename f) \<and> is_pdf_content f
        \<and> assignment_by_id sv aid db = Some a \<longrightarrow>
        (\<exists>db'. submit sv now token student aid (Some f) db
                  = (db', Success ''Assignment submitted successfully.'' ''student_dashboard'')
           \<and> db' = store_new sv now token student aid (a_id a) f
                     (remove_old student (a_id a) db)
           \<and> length (pending_for student' k' db') \<le> 1
           \<and> length (pending_for student (a_id a) db') = 1
           \<and> (\<forall>old\<in>set (pending_for student (a_id a) db).
                 old \<notin> set (submissions (remove_old student (a_id a) db))
                 \<and> uploads (remove_old student (a_id a) db) (s_file_name old) = None
                 \<and> old \<notin> set (submissions db')
                 \<and> length (rows_for student (a_id a) db')
                     = length (rows_for student (a_id a) db))
           \<and> (pending_for student (a_id a) db = [] \<longrightarrow>
                 length (rows_for student (a_id a) db')
                   = Suc (length (rows_for student (a_id a) db)))
           \<and> (\<forall>r\<in>set (submissions db). s_status r \<noteq> ''Pending''
                 \<longrightarrow> r \<in> set (submissions db'))))"
proof (intro conjI impI)
  have inv: "portal_inv db" using assms by (rule reachable_inv)
  then have uniq: "pending_unique db" by (simp add: portal_inv_def)
  show "length (pending_for student' k' db) \<le> 1"
    using uniq by (rule pending_unique_length)
  assume v: "aid \<noteq> [] \<and> filename f \<noteq> [] \<and> allowed_file (filename f) \<and> is_pdf_content f
        \<and> assignment_by_id sv aid db = Some a"
  let ?k = "a_id a"
  let ?db1 = "remove_old student ?k db"
  let ?db' = "store_new sv now token student aid ?k f ?db1"
  have run: "submit sv now token student aid (Some f) db
      = (?db', Success ''Assignment submitted successfully.'' ''student_dashboard'')"
    using v by (intro submit_success) simp_all
  have inv': "portal_inv ?db'" using inv by (rule inv_submit_steps)
  then have "pending_unique ?db'" by (simp add: portal_inv_def)
  then have all': "length (pending_for student' k' ?db') \<le> 1"
    by (rule pending_unique_length)
  have nop: "pending_for student ?k ?db1 = []"
    using uniq by (rule remove_old_no_pending)
  have one: "length (pending_for student ?k ?db') = 1"
    using nop by (rule store_new_pending)
  have rows': "length (rows_for student ?k ?db') = Suc (length (rows_for student ?k ?db1))"
    by (rule store_new_rows)
  have olds: "\<forall>old\<in>set (pending_for student ?k db).
                 old \<notin> set (submissions ?db1)
                 \<and> uploads ?db1 (s_file_name old) = None
                 \<and> old \<notin> set (submissions ?db')
                 \<and> length (rows_for student ?k ?db') = length (rows_for student ?k db)"
  proof
    fix old assume old: "old \<in> set (pending_for student ?k db)"
    note R = remove_old_replaces [OF inv old]
    have "submissions_seq ?db1 = submissions_seq db" by (rule remove_old_seq)
    then have "old \<notin> set (submissions ?db')"
      using R(1) R(4) by (auto simp: store_new_submissions)
    moreover have "length (rows_for student ?k ?db') = length (rows_for student ?k db)"
      using rows' R(3) by simp
    ultimately show "old \<notin> set (submissions ?db1)
                 \<and> uploads ?db1 (s_file_name old) = None
                 \<and> old \<notin> set (submissions ?db')
                 \<and> length (rows_for student ?k ?db') = length (rows_for student ?k db)"
      using R(1) R(2) by simp
  qed
  have fresh: "pending_for student ?k db = [] \<longrightarrow>
                 length (rows_for student ?k ?db') = Suc (length (rows_for student ?k db))"
    using rows' by (auto simp: remove_old_none)
  have keeps: "\<forall>r\<in>set (submissions db). s_status r \<noteq> ''Pending''
                 \<longrightarrow> r \<in> set (submissions ?db')"
    using remove_old_keeps [OF inv] by (simp add: store_new_submissions)
  show "\<exists>db'. submit sv now token student aid (Some f) db
                  = (db', Success ''Assignment submitted successfully.'' ''student_dashboard'')
           \<and> db' = store_new sv now token student aid (a_id a) f
                     (remove_old student (a_id a) db)
           \<and> length (pending_for student' k' db') \<le> 1
           \<and> length (pending_for student (a_id a) db') = 1
           \<and> (\<forall>old\<in>set (pending_for student (a_id a) db).
                 old \<notin> set (submissions (remove_old student (a_id a) db))
                 \<and> uploads (remove_old student (a_id a) db) (s_file_name old) = None
                 \<and> old \<notin> set (submissions db')
                 \<and> length (rows_for student (a_id a) db')
                     = length (rows_for student (a_id a) db))
           \<and> (pending_for student (a_id a) db = [] \<longrightarrow>
                 length (rows_for student (a_id a) db')
                   = Suc (length (rows_for student (a_id a) db)))
           \<and> (\<forall>r\<in>set (submissions db). s_status r \<noteq> ''Pending''
                 \<longrightarrow> r \<in> set (submissions db'))"
    using run all' one olds fresh keeps by (intro exI [of _ ?db'] conjI refl)
qed


text \<open>
  After the three requests the student has an Approved and a Pending submission for
  assignment 1. A further submit replaces the Pending one (its row and file go, the
  count stays) and keeps the Approved one; the same submit one request earlier, when
  nothing was Pending, adds a row.
\<close>

theorem pending_submission_unique_witness:
  "reachable demo_services demo_step3
   \<and> map s_status (submissions demo_step3) = [''Approved'', ''Pending'']
   \<and> length (pending_for 2 1 demo_step3) \<le> 1
   \<and> snd (submit demo_services ''2026-03-05 10:00:00'' ''c3'' 2 ''1'' (Some demo_pdf) demo_step3)
       = Success ''Assignment submitted successfully.'' ''student_dashboard''
   \<and> length (pending_for 2 1
        (fst (submit demo_services ''2026-03-05 10:00:00'' ''c3'' 2 ''1'' (Some demo_pdf)
           demo_step3))) = 1
   \<and> length (rows_for 2 1
        (fst (submit demo_services ''2026-03-05 10:00:00'' ''c3'' 2 ''1'' (Some demo_pdf)
           demo_step3))) = length (rows_for 2 1 demo_step3)
   \<and> last (submissions demo_step3)
       \<notin> set (submissions
            (fst (submit demo_services ''2026-03-05 10:00:00'' ''c3'' 2 ''1'' (Some demo_pdf)
               demo_step3)))
   \<and> uploads (remove_old 2 1 demo_step3) (s_file_name (last (submissions demo_step3))) = None
   \<and> hd (submissions demo_step3)
       \<in> set (submissions
            (fst (submit demo_services ''2026-03-05 10:00:00'' ''c3'' 2 ''1'' (Some demo_pdf)
               demo_step3)))
   \<and> length (rows_for 2 1
        (fst (submit demo_services ''2026-03-05 10:00:00'' ''c3'' 2 ''1'' (Some demo_pdf)
           demo_step2))) = Suc (length (rows_for 2 1 demo_step2))"
proof -
  let ?now = "''2026-03-05 10:00:00''"
  let ?old = "last (submissions demo_step3)"
  let ?app = "hd (submissions demo_step3)"
  have st: "map s_status (submissions demo_step3) = [''Approved'', ''Pending'']"
    by (simp add: demo_step3_tables)
  from assignment_one [OF demo_step3_tables(1)] obtain a3
    where a3: "assignment_by_id demo_services ''1'' demo_step3 = Some a3" and k3: "a_id a3 = 1"
    by blast
  from assignment_one [OF demo_step2_tables(1)] obtain a2
    where a2: "assignment_by_id demo_services ''1'' demo_step2 = Some a2" and k2: "a_id a2 = 1"
    by blast
  have v3: "''1'' \<noteq> [] \<and> filename demo_pdf \<noteq> [] \<and> allowed_file (filename demo_pdf)
      \<and> is_pdf_content demo_pdf \<and> assignment_by_id demo_services ''1'' demo_step3 = Some a3"
    using demo_pdf_valid a3 by simp
  have v2: "''1'' \<noteq> [] \<and> filename demo_pdf \<noteq> [] \<and> allowed_file (filename demo_pdf)
      \<and> is_pdf_content demo_pdf \<and> assignment_by_id demo_services ''1'' demo_step2 = Some a2"
    using demo_pdf_valid a2 by simp
  have old: "?old \<in> set (pending_for 2 1 demo_step3)"
    by (simp add: pending_for_def is_pending_for_def demo_step3_tables)
  have app: "?app \<in> set (submissions demo_step3) \<and> s_status ?app \<noteq> ''Pending''"
    by (simp add: demo_step3_tables)
  have none2: "pending_for 2 1 demo_step2 = []"
    by (simp add: pending_for_def is_pending_for_def demo_step2_tables)
  note T3 = pending_submission_unique [OF demo_reachable(2), where student' = 2 and k' = 1
      and student = 2 and aid = "''1''" and f = demo_pdf and a = a3 and now = ?now
      and token = "''c3''"]
  note T2 = pending_submission_unique [OF demo_reachable(1), where student' = 2 and k' = 1
      and student = 2 and aid = "''1''" and f = demo_pdf and a = a2 and now = ?now
      and token = "''c3''"]
  from T3 have le: "length (pending_for 2 1 demo_step3) \<le> 1" by (rule conjunct1)
  from T3 v3 obtain db' where
    run: "submit demo_services ?now ''c3'' 2 ''1'' (Some demo_pdf) demo_step3
        = (db', Success ''Assignment submitted successfully.'' ''student_dashboard'')"
    and one: "length (pending_for 2 (a_id a3) db') = 1"
    and olds: "\<forall>old\<in>set (pending_for 2 (a_id a3) demo_step3).
                 old \<notin> set (submissions (remove_old 2 (a_id a3) demo_step3))
                 \<and> uploads (remove_old 2 (a_id a3) demo_step3) (s_file_name old) = None
                 \<and> old \<notin> set (submissions db')
                 \<and> length (rows_for 2 (a_id a3) db') = length (rows_for 2 (a_id a3) demo_step3)"
    and keeps: "\<forall>r\<in>set (submissions demo_step3). s_status r \<noteq> ''Pending''
                 \<longrightarrow> r \<in> set (submissions db')"
    by blast
  from olds old have o: "uploads (remove_old 2 1 demo_step3) (s_file_name ?old) = None
      \<and> ?old \<notin> set (submissions db')
      \<and> length (rows_for 2 1 db') = length (rows_for 2 1 demo_step3)"
    unfolding k3 by blast
  from keeps app have kp: "?app \<in> set (submissions db')" by blast
  from T2 v2 none2 obtain db2 where
    run2: "submit demo_services ?now ''c3'' 2 ''1'' (Some demo_pdf) demo_step2
        = (db2, Success ''Assignment submitted successfully.'' ''student_dashboard'')"
    and more: "length (rows_for 2 (a_id a2) db2) = Suc (length (rows_for 2 (a_id a2) demo_step2))"
    unfolding k2 by blast
  show ?thesis
    using demo_reachable(2) st le one o kp more
    unfolding run run2 k3 k2 fst_conv snd_conv by (simp only: simp_thms)
qed

end
